theory Spec2Isabelle
  imports Main
begin

section \<open>JavaScript values used by the server\<close>

text \<open>
  The server keeps strings that may be \<^verbatim>\<open>null\<close>; a test such as \<^verbatim>\<open>if (idToken)\<close> or
  \<^verbatim>\<open>storedUsername || username\<close> is a truthiness test, which \<^verbatim>\<open>null\<close>, \<^verbatim>\<open>undefined\<close>
  and the empty string fail. \<open>None\<close> stands for \<^verbatim>\<open>null\<close> and \<^verbatim>\<open>undefined\<close>.
\<close>

definition truthy :: "string option \<Rightarrow> bool" where
  "truthy x = (case x of None \<Rightarrow> False | Some s \<Rightarrow> s \<noteq> [])"

definition js_or :: "string option \<Rightarrow> string option \<Rightarrow> string option" where
  "js_or a b = (if truthy a then a else b)"

text \<open>\<^verbatim>\<open>s.includes(sub)\<close>: \<open>sub\<close> occurs in \<open>s\<close> as a contiguous piece.\<close>

fun str_includes :: "string \<Rightarrow> string \<Rightarrow> bool" where
  "str_includes [] sub = (sub = [])"
| "str_includes (c # cs) sub = (take (length sub) (c # cs) = sub \<or> str_includes cs sub)"

text \<open>\<^verbatim>\<open>xs.join(sep)\<close> on an array of strings.\<close>

fun join :: "string \<Rightarrow> string list \<Rightarrow> string" where
  "join sep [] = []"
| "join sep [x] = x"
| "join sep (x # y # ys) = x @ sep @ join sep (y # ys)"

text \<open>A number in a template literal: the decimal digits of a natural number.\<close>

definition digit_char :: "nat \<Rightarrow> char" where
  "digit_char d = ''0123456789'' ! d"

fun show_nat :: "nat \<Rightarrow> string" where
  "show_nat n = (if n < 10 then [digit_char n] else show_nat (n div 10) @ [digit_char (n mod 10)])"

declare show_nat.simps [simp del]

text \<open>
  A JSON value, as \<^verbatim>\<open>JSON.parse\<close> builds it: the query variables and the body of a
  response. An object is the list of its own properties, each key once. Numbers are kept
  as integers; a number that is not an integer behaves here as any integer other than 0.
\<close>

datatype json =
    JNull
  | JBool bool
  | JNum int
  | JStr string
  | JArr "json list"
  | JObj "(string \<times> json) list"

text \<open>An error of the language itself, thrown where a value is not what the code expects.\<close>

datatype js_error = TypeError string

text \<open>The truthiness of a JSON value.\<close>

fun js_truthy :: "json \<Rightarrow> bool" where
  "js_truthy JNull = False"
| "js_truthy (JBool b) = b"
| "js_truthy (JNum n) = (n \<noteq> 0)"
| "js_truthy (JStr s) = (s \<noteq> [])"
| "js_truthy (JArr xs) = True"
| "js_truthy (JObj kv) = True"

text \<open>
  \<^verbatim>\<open>v.key\<close> for a value \<open>v\<close> that is not \<^verbatim>\<open>null\<close> and a key that no prototype defines
  (\<^verbatim>\<open>errors\<close>, \<^verbatim>\<open>errorType\<close>, \<^verbatim>\<open>message\<close>): the own property of an object, \<^verbatim>\<open>undefined\<close>
  (\<open>None\<close>) on anything else.
\<close>

fun js_member :: "json \<Rightarrow> string \<Rightarrow> json option" where
  "js_member (JObj kv) key = map_of kv key"
| "js_member v key = None"

text \<open>
  \<^verbatim>\<open>obj[key]\<close> on a plain object (one made by \<^verbatim>\<open>JSON.parse\<close> or \<^verbatim>\<open>{}\<close>): an own property
  first, then the properties every plain object inherits from \<^verbatim>\<open>Object.prototype\<close>, which
  are functions (or, for \<^verbatim>\<open>__proto__\<close>, the prototype object): truthy values without
  any of the own properties of a descriptor.
\<close>

datatype 'a property = Own 'a | Inherited | Undefined

definition objectPrototypeProperties :: "string list" where
  "objectPrototypeProperties =
     [''constructor'', ''toString'', ''toLocaleString'', ''valueOf'', ''hasOwnProperty'',
      ''isPrototypeOf'', ''propertyIsEnumerable'', ''__proto__'', ''__defineGetter__'',
      ''__defineSetter__'', ''__lookupGetter__'', ''__lookupSetter__'']"

definition getProperty :: "(string \<times> 'a) list \<Rightarrow> string \<Rightarrow> 'a property" where
  "getProperty obj key =
     (case map_of obj key of
        Some v \<Rightarrow> Own v
      | None \<Rightarrow> if key \<in> set objectPrototypeProperties then Inherited else Undefined)"

section \<open>Session state, configuration and the outside world\<close>

text \<open>
  The module-level variables \<^verbatim>\<open>currentUser\<close>, \<^verbatim>\<open>idToken\<close>, \<^verbatim>\<open>storedUsername\<close> and
  \<^verbatim>\<open>storedPassword\<close>, and the calls the server has made so far to the GraphQL endpoint
  and to the identity provider (\<^verbatim>\<open>Auth\<close>), oldest first. \<open>RefreshInvoked\<close> records a call
  of \<^verbatim>\<open>handleAuthRefresh\<close> itself.
\<close>

datatype user = CognitoUser string

datatype event =
    is_Fetch: Fetch "string option" string json
  | is_CurrentSession: CurrentSession
  | is_SignIn: SignIn string string
  | is_CurrentUserInfo: CurrentUserInfo
  | is_RefreshInvoked: RefreshInvoked

record state =
  currentUser :: "user option"
  idToken :: "string option"
  storedUsername :: "string option"
  storedPassword :: "string option"
  trace :: "event list"

definition record_event :: "event \<Rightarrow> state \<Rightarrow> state" where
  "record_event e s = s\<lparr>trace := trace s @ [e]\<rparr>"

text \<open>
  What the start-up code fixes once: \<^verbatim>\<open>isAuthInitialized\<close> and the two environment
  variables, from which \<^verbatim>\<open>username\<close> and \<^verbatim>\<open>password\<close> are read with \<^verbatim>\<open>|| null\<close>.
\<close>

record config =
  isAuthInitialized :: bool
  AMPLIFY_USERNAME :: "string option"
  AMPLIFY_PASSWORD :: "string option"

definition username :: "config \<Rightarrow> string option" where
  "username cfg = js_or (AMPLIFY_USERNAME cfg) None"

definition password :: "config \<Rightarrow> string option" where
  "password cfg = js_or (AMPLIFY_PASSWORD cfg) None"

text \<open>
  What \<^verbatim>\<open>fetch\<close> gives: a rejection (no response), or a response with its status and
  what \<^verbatim>\<open>response.json()\<close> would give (a rejection text, or the parsed body, which may
  be any JSON value).
\<close>

datatype fetch_outcome =
    NetworkError string
  | Response nat "string + json"

text \<open>
  The endpoint and the identity provider answer each call as a function of all the calls
  made so far, the present one last. A rejected promise is \<open>Inl\<close> with the text that
  \<^verbatim>\<open>error instanceof Error ? error.message : String(error)\<close> gives for it.
  \<open>Auth_currentSession\<close> gives the JWT that \<^verbatim>\<open>session.getIdToken().getJwtToken()\<close> reads.
\<close>

record world =
  fetch :: "event list \<Rightarrow> fetch_outcome"
  Auth_currentSession :: "event list \<Rightarrow> string + string"
  Auth_signIn :: "event list \<Rightarrow> string + user"
  Auth_currentUserInfo :: "event list \<Rightarrow> string + json"

text \<open>
  The errors \<^verbatim>\<open>executeGraphQLQuery\<close> and \<^verbatim>\<open>handleAuthRefresh\<close> throw, and their messages.
  \<open>Rethrown\<close> is a \<^verbatim>\<open>TypeError\<close> raised while the body is inspected, which the \<^verbatim>\<open>catch\<close> of
  \<^verbatim>\<open>executeGraphQLQuery\<close> throws again.
\<close>

datatype error =
    HttpError nat
  | TransportError string
  | Rethrown js_error
  | ReloginFailed
  | NoStoredCredentials
  | AuthNotInitialized

fun error_message :: "error \<Rightarrow> string" where
  "error_message (HttpError status) = ''HTTP error! status: '' @ show_nat status"
| "error_message (TransportError m) = m"
| "error_message (Rethrown (TypeError m)) = m"
| "error_message ReloginFailed = ''Authentication expired and automatic re-login failed''"
| "error_message NoStoredCredentials =
     ''Authentication expired and no stored credentials for re-login''"
| "error_message AuthNotInitialized = ''Authentication system not initialized''"

text \<open>
  The two error kinds of the specification: \<open>UpstreamError\<close> for a failure of the endpoint
  or the transport, \<open>AuthUnavailable\<close> for a refresh that found no way to a valid token.
  A \<^verbatim>\<open>TypeError\<close> of the program is neither: \<open>InternalError\<close>.
\<close>

datatype error_kind = AuthUnavailable | UpstreamError | InternalError

fun kind_of :: "error \<Rightarrow> error_kind" where
  "kind_of (HttpError status) = UpstreamError"
| "kind_of (TransportError m) = UpstreamError"
| "kind_of (Rethrown t) = InternalError"
| "kind_of ReloginFailed = AuthUnavailable"
| "kind_of NoStoredCredentials = AuthUnavailable"
| "kind_of AuthNotInitialized = AuthUnavailable"

section \<open>The authenticated request executor\<close>

text \<open>\<^verbatim>\<open>response.ok\<close>: a status from 200 to 299.\<close>

definition ok :: "nat \<Rightarrow> bool" where
  "ok status = (200 \<le> status \<and> status \<le> 299)"

text \<open>The header \<^verbatim>\<open>Authorization\<close> of the request: the token when it is truthy.\<close>

definition authorization :: "state \<Rightarrow> string option" where
  "authorization s = (if truthy (idToken s) then idToken s else None)"

text \<open>
  \<^verbatim>\<open>e.message?.includes(text)\<close>: \<^verbatim>\<open>undefined\<close> (falsy) when the message is absent or
  \<^verbatim>\<open>null\<close>, the search in a string, the membership in an array, and a \<^verbatim>\<open>TypeError\<close> on a
  number, a boolean or an object, which have no function \<^verbatim>\<open>includes\<close>.
\<close>

fun messageIncludes :: "json option \<Rightarrow> string \<Rightarrow> js_error + bool" where
  "messageIncludes None text = Inr False"
| "messageIncludes (Some JNull) text = Inr False"
| "messageIncludes (Some (JStr m)) text = Inr (str_includes m text)"
| "messageIncludes (Some (JArr xs)) text = Inr (JStr text \<in> set xs)"
| "messageIncludes (Some v) text = Inl (TypeError ''e.message?.includes is not a function'')"

text \<open>
  The callback of \<^verbatim>\<open>result.errors.some(...)\<close>: the three tests in their order, each
  evaluated only when the ones before it are falsy. Reading a property of \<^verbatim>\<open>null\<close> throws.
\<close>

definition isAuthError :: "json \<Rightarrow> js_error + bool" where
  "isAuthError e =
     (if e = JNull then Inl (TypeError ''Cannot read properties of null'')
      else if js_member e ''errorType'' = Some (JStr ''UnauthorizedException'') then Inr True
      else
        (case messageIncludes (js_member e ''message'') ''Authentication failed'' of
           Inl t \<Rightarrow> Inl t
         | Inr True \<Rightarrow> Inr True
         | Inr False \<Rightarrow> messageIncludes (js_member e ''message'') ''token is expired''))"

text \<open>\<^verbatim>\<open>es.some(callback)\<close>: the entries in order, up to the first that is truthy or throws.\<close>

fun someAuthError :: "json list \<Rightarrow> js_error + bool" where
  "someAuthError [] = Inr False"
| "someAuthError (e # es) =
     (case isAuthError e of
        Inl t \<Rightarrow> Inl t
      | Inr True \<Rightarrow> Inr True
      | Inr False \<Rightarrow> someAuthError es)"

text \<open>
  The test \<^verbatim>\<open>result.errors && result.errors.some(...)\<close> on the parsed body: a body that is
  \<^verbatim>\<open>null\<close> throws; an \<^verbatim>\<open>errors\<close> that is absent or falsy ends the test; one that is truthy
  and not an array has no function \<^verbatim>\<open>some\<close> and throws.
\<close>

definition hasAuthErrors :: "json \<Rightarrow> js_error + bool" where
  "hasAuthErrors result =
     (if result = JNull then Inl (TypeError ''Cannot read properties of null'')
      else
        (case js_member result ''errors'' of
           None \<Rightarrow> Inr False
         | Some errs \<Rightarrow>
             if \<not> js_truthy errs then Inr False
             else
               (case errs of
                  JArr es \<Rightarrow> someAuthError es
                | _ \<Rightarrow> Inl (TypeError ''result.errors.some is not a function''))))"

text \<open>
  The body of the first \<^verbatim>\<open>try\<close> of \<^verbatim>\<open>handleAuthRefresh\<close> up to its \<^verbatim>\<open>return\<close>:
  \<^verbatim>\<open>Auth.currentSession()\<close> twice, then the token of the second session is stored. A
  rejection of either call leaves the state as it was but for the calls made.
\<close>

definition renewSession :: "world \<Rightarrow> state \<Rightarrow> bool \<times> state" where
  "renewSession w s =
     (let s1 = record_event CurrentSession s in
      case Auth_currentSession w (trace s1) of
        Inl refreshError \<Rightarrow> (False, s1)
      | Inr first \<Rightarrow>
          (let s2 = record_event CurrentSession s1 in
           case Auth_currentSession w (trace s2) of
             Inl refreshError \<Rightarrow> (False, s2)
           | Inr jwt \<Rightarrow> (True, s2\<lparr>idToken := Some jwt\<rparr>)))"

text \<open>
  The body of the inner \<^verbatim>\<open>try\<close> (the re-login) up to its \<^verbatim>\<open>return\<close>: \<^verbatim>\<open>Auth.signIn\<close>,
  the assignment of \<^verbatim>\<open>currentUser\<close>, \<^verbatim>\<open>Auth.currentSession()\<close>, the assignment of
  \<^verbatim>\<open>idToken\<close>.
\<close>

definition relogin :: "world \<Rightarrow> string \<Rightarrow> string \<Rightarrow> state \<Rightarrow> bool \<times> state" where
  "relogin w loginUsername loginPassword s =
     (let s1 = record_event (SignIn loginUsername loginPassword) s in
      case Auth_signIn w (trace s1) of
        Inl loginError \<Rightarrow> (False, s1)
      | Inr u \<Rightarrow>
          (let s2 = record_event CurrentSession (s1\<lparr>currentUser := Some u\<rparr>) in
           case Auth_currentSession w (trace s2) of
             Inl loginError \<Rightarrow> (False, s2)
           | Inr jwt \<Rightarrow> (True, s2\<lparr>idToken := Some jwt\<rparr>)))"

text \<open>
  \<^verbatim>\<open>executeGraphQLQuery\<close> and \<^verbatim>\<open>handleAuthRefresh\<close> call each other with no bound in the
  source, so the model takes fuel: one unit for each call of either function. The result
  is \<open>None\<close> when the fuel ran out before the call returned, \<open>Some (Inl e)\<close> when it threw
  \<open>e\<close>, \<open>Some (Inr result)\<close> when it returned the body. The \<^verbatim>\<open>catch\<close> of
  \<^verbatim>\<open>executeGraphQLQuery\<close> logs and throws the error again. In \<^verbatim>\<open>handleAuthRefresh\<close> the
  retried call is returned without \<^verbatim>\<open>await\<close>, so neither \<^verbatim>\<open>catch\<close> sees its error.
\<close>

fun executeGraphQLQuery ::
    "nat \<Rightarrow> config \<Rightarrow> world \<Rightarrow> string \<Rightarrow> json \<Rightarrow> state \<Rightarrow> (error + json) option \<times> state"
  and handleAuthRefresh ::
    "nat \<Rightarrow> config \<Rightarrow> world \<Rightarrow> string \<Rightarrow> json \<Rightarrow> state \<Rightarrow> (error + json) option \<times> state"
where
  "executeGraphQLQuery 0 cfg w query variables s = (None, s)"
| "executeGraphQLQuery (Suc k) cfg w query variables s =
     (let s1 = record_event (Fetch (authorization s) query variables) s in
      case fetch w (trace s1) of
        NetworkError m \<Rightarrow> (Some (Inl (TransportError m)), s1)
      | Response status body \<Rightarrow>
          if status = 401 then handleAuthRefresh k cfg w query variables s1
          else if \<not> ok status then (Some (Inl (HttpError status)), s1)
          else
            (case body of
               Inl m \<Rightarrow> (Some (Inl (TransportError m)), s1)
             | Inr result \<Rightarrow>
                 (case hasAuthErrors result of
                    Inl t \<Rightarrow> (Some (Inl (Rethrown t)), s1)
                  | Inr True \<Rightarrow> handleAuthRefresh k cfg w query variables s1
                  | Inr False \<Rightarrow> (Some (Inr result), s1))))"
| "handleAuthRefresh 0 cfg w query variables s = (None, s)"
| "handleAuthRefresh (Suc k) cfg w query variables s =
     (let s0 = record_event RefreshInvoked s in
      if isAuthInitialized cfg then
        (case renewSession w s0 of
           (True, s1) \<Rightarrow> executeGraphQLQuery k cfg w query variables s1
         | (False, s1) \<Rightarrow>
             (let loginUsername = js_or (storedUsername s1) (username cfg);
                  loginPassword = js_or (storedPassword s1) (password cfg)
              in if truthy loginUsername \<and> truthy loginPassword then
                   (case relogin w (the loginUsername) (the loginPassword) s1 of
                      (True, s2) \<Rightarrow> executeGraphQLQuery k cfg w query variables s2
                    | (False, s2) \<Rightarrow> (Some (Inl ReloginFailed), s2))
                 else (Some (Inl NoStoredCredentials), s1)))
      else (Some (Inl AuthNotInitialized), s0))"

text \<open>The responses on which \<^verbatim>\<open>executeGraphQLQuery\<close> calls \<^verbatim>\<open>handleAuthRefresh\<close>.\<close>

definition authentication_failure :: "fetch_outcome \<Rightarrow> bool" where
  "authentication_failure r =
     (case r of
        NetworkError m \<Rightarrow> False
      | Response status body \<Rightarrow>
          status = 401 \<or>
          (ok status \<and> (case body of Inl m \<Rightarrow> False | Inr result \<Rightarrow> hasAuthErrors result = Inr True)))"

subsection \<open>The classification in the words of the specification\<close>











subsection \<open>The refresh step and the account of a run\<close>

text \<open>
  \<^verbatim>\<open>handleAuthRefresh\<close> up to the point where it sends the query again: the refresh of the
  specification. \<open>None\<close> when a token was obtained, \<open>Some e\<close> when \<open>e\<close> is thrown.
\<close>

definition refresh :: "config \<Rightarrow> world \<Rightarrow> state \<Rightarrow> error option \<times> state" where
  "refresh cfg w s =
     (let s0 = record_event RefreshInvoked s in
      if isAuthInitialized cfg then
        (case renewSession w s0 of
           (True, s1) \<Rightarrow> (None, s1)
         | (False, s1) \<Rightarrow>
             (let loginUsername = js_or (storedUsername s1) (username cfg);
                  loginPassword = js_or (storedPassword s1) (password cfg)
              in if truthy loginUsername \<and> truthy loginPassword then
                   (case relogin w (the loginUsername) (the loginPassword) s1 of
                      (True, s2) \<Rightarrow> (None, s2)
                    | (False, s2) \<Rightarrow> (Some ReloginFailed, s2))
                 else (Some NoStoredCredentials, s1)))
      else (Some AuthNotInitialized, s0))"

text \<open>
  The refresh step by step, as the specification describes it, behind the test that
  authentication is configured: nothing when it is not; else the renewal of the session, which asks for the session twice
  and takes the token of the second; when either is refused, the re-authentication, with
  user name and password each from the last login when stored there and from the
  environment otherwise, which needs both, an accepted sign-in and a session after it.
  \<open>Some s'\<close> is the state after a refresh that obtained a token, \<open>None\<close> says that the
  refresh failed. \<open>h\<close> is the record of calls when the re-authentication starts.
\<close>

definition spec_reauthenticate :: "config \<Rightarrow> world \<Rightarrow> state \<Rightarrow> event list \<Rightarrow> state option" where
  "spec_reauthenticate cfg w s h =
     (case (js_or (storedUsername s) (username cfg), js_or (storedPassword s) (password cfg)) of
        (Some u, Some p) \<Rightarrow>
          if u = [] \<or> p = [] then None
          else
            (case Auth_signIn w (h @ [SignIn u p]) of
               Inl m \<Rightarrow> None
             | Inr usr \<Rightarrow>
                 (case Auth_currentSession w (h @ [SignIn u p, CurrentSession]) of
                    Inl m \<Rightarrow> None
                  | Inr jwt \<Rightarrow>
                      Some (s\<lparr>currentUser := Some usr, idToken := Some jwt,
                              trace := h @ [SignIn u p, CurrentSession]\<rparr>)))
      | _ \<Rightarrow> None)"

definition spec_refresh :: "config \<Rightarrow> world \<Rightarrow> state \<Rightarrow> state option" where
  "spec_refresh cfg w s =
     (let h = trace s @ [RefreshInvoked] in
      if \<not> isAuthInitialized cfg then None
      else
        (case Auth_currentSession w (h @ [CurrentSession]) of
           Inl m \<Rightarrow> spec_reauthenticate cfg w s (h @ [CurrentSession])
         | Inr first \<Rightarrow>
             (case Auth_currentSession w (h @ [CurrentSession, CurrentSession]) of
                Inl m \<Rightarrow> spec_reauthenticate cfg w s (h @ [CurrentSession, CurrentSession])
              | Inr jwt \<Rightarrow>
                  Some (s\<lparr>idToken := Some jwt,
                          trace := h @ [CurrentSession, CurrentSession]\<rparr>))))"

text \<open>
  Counts over the calls a run has added to the record: the requests sent, the calls of
  \<^verbatim>\<open>handleAuthRefresh\<close>, and the requests whose response was an authentication failure
  (\<open>h\<close> is the record before the calls \<open>evs\<close>).
\<close>

definition requests :: "event list \<Rightarrow> nat" where
  "requests evs = length (filter is_Fetch evs)"

definition refreshes :: "event list \<Rightarrow> nat" where
  "refreshes evs = length (filter is_RefreshInvoked evs)"

fun auth_failures :: "world \<Rightarrow> event list \<Rightarrow> event list \<Rightarrow> nat" where
  "auth_failures w h [] = 0"
| "auth_failures w h (e # evs) =
     (if is_Fetch e \<and> authentication_failure (fetch w (h @ [e])) then 1 else 0)
     + auth_failures w (h @ [e]) evs"

text \<open>The calls that are requests to the endpoint with a given query and variables.\<close>

fun is_request_of :: "string \<Rightarrow> json \<Rightarrow> event \<Rightarrow> bool" where
  "is_request_of query variables (Fetch a q v) = (q = query \<and> v = variables)"
| "is_request_of query variables e = False"

text \<open>
  Every refresh among the calls \<open>evs\<close> is answered as its result demands: a request follows
  the refreshes that succeed, and none follows one that fails. Whether a refresh succeeds
  is read from \<open>spec_refresh\<close> at the record \<open>h\<close> of the calls before it, with the stored
  credentials of \<open>s\<close>.
\<close>

fun refreshes_answered :: "config \<Rightarrow> world \<Rightarrow> state \<Rightarrow> event list \<Rightarrow> event list \<Rightarrow> bool" where
  "refreshes_answered cfg w s h [] = True"
| "refreshes_answered cfg w s h (e # evs) =
     ((if is_RefreshInvoked e
       then (spec_refresh cfg w (s\<lparr>trace := h\<rparr>) \<noteq> None) = (0 < requests evs)
       else True)
      \<and> refreshes_answered cfg w s (h @ [e]) evs)"

text \<open>
  The last of the requests and refreshes among the calls is a refresh: nothing was sent
  after it.
\<close>

fun ends_with_refresh :: "event list \<Rightarrow> bool" where
  "ends_with_refresh [] = False"
| "ends_with_refresh (e # evs) =
     (if requests evs = 0 \<and> refreshes evs = 0 then is_RefreshInvoked e
      else ends_with_refresh evs)"

text \<open>An outcome that is an error of the kind \<open>AuthUnavailable\<close>.\<close>

definition auth_unavailable :: "error + json \<Rightarrow> bool" where
  "auth_unavailable outcome =
     (case outcome of Inl e \<Rightarrow> kind_of e = AuthUnavailable | Inr result \<Rightarrow> False)"

text \<open>The calls a run has added to the record, between the state before and the state after.\<close>

definition new_events :: "state \<Rightarrow> state \<Rightarrow> event list" where
  "new_events s s' = drop (length (trace s)) (trace s')"

text \<open>
  The account of a run that has ended, from \<open>s\<close> to \<open>s'\<close> with the outcome given:
  \<open>pending\<close> is 1 for a run of \<^verbatim>\<open>handleAuthRefresh\<close>, which starts with a refresh that an
  earlier response has caused, and 0 for a run of \<^verbatim>\<open>executeGraphQLQuery\<close>. There is one
  refresh for each response that was an authentication failure; there is one request
  more than there are refreshes, but for the last refresh when it failed; every request
  carries the same query and variables; every refresh is answered as its result demands,
  and the outcome is \<open>AuthUnavailable\<close> exactly when nothing was sent after the last
  refresh; the stored credentials are as before.
\<close>

definition run_accounted ::
    "config \<Rightarrow> world \<Rightarrow> string \<Rightarrow> json \<Rightarrow> nat \<Rightarrow> state \<Rightarrow> error + json \<Rightarrow> state \<Rightarrow> bool" where
  "run_accounted cfg w query variables pending s outcome s' \<longleftrightarrow>
     (\<exists>evs. trace s' = trace s @ evs \<and>
        refreshes evs = pending + auth_failures w (trace s) evs \<and>
        pending + requests evs =
          (if auth_unavailable outcome then refreshes evs else Suc (refreshes evs)) \<and>
        0 < pending + requests evs \<and>
        list_all (\<lambda>e. is_Fetch e = is_request_of query variables e) evs \<and>
        refreshes_answered cfg w s (trace s) evs \<and>
        auth_unavailable outcome = ends_with_refresh evs \<and>
        storedUsername s' = storedUsername s \<and> storedPassword s' = storedPassword s)"

section \<open>The schema introspection formatter\<close>

text \<open>
  The descriptor document (\<^verbatim>\<open>model_introspection\<close> of the outputs file). A field's
  \<^verbatim>\<open>type\<close> is a scalar name (a string) or an object with one key: \<^verbatim>\<open>model\<close>, \<^verbatim>\<open>enum\<close> or
  \<^verbatim>\<open>nonModel\<close>. An object keeps its keys in the order \<^verbatim>\<open>Object.entries\<close> lists them.
\<close>

datatype field_type = Scalar string | ModelRef string | EnumRef string | NonModel string

record field_association =
  connectionType :: string
  associatedWith :: "string list option"
  targetNames :: "string list option"

record field_descriptor =
  ftype :: field_type
  isRequired :: bool
  isArray :: bool
  isReadOnly :: bool
  association :: "field_association option"

record auth_rule =
  provider :: "string option"
  allow :: "string option"
  operations :: "string list"

record model_attribute =
  attr_type :: string
  rules :: "auth_rule list"

record model_descriptor =
  model_fields :: "(string \<times> field_descriptor) list"
  model_attributes :: "model_attribute list"

type_synonym models = "(string \<times> model_descriptor) list"

type_synonym enums = "(string \<times> string list) list"

text \<open>\<^verbatim>\<open>field.type.model\<close> and \<^verbatim>\<open>field.type.enum\<close>; \<open>None\<close> is \<^verbatim>\<open>undefined\<close>.\<close>

fun type_model :: "field_type \<Rightarrow> string option" where
  "type_model (ModelRef n) = Some n"
| "type_model t = None"

fun type_enum :: "field_type \<Rightarrow> string option" where
  "type_enum (EnumRef n) = Some n"
| "type_enum t = None"

text \<open>A value that may be \<^verbatim>\<open>undefined\<close>, in a template literal.\<close>

definition show_opt :: "string option \<Rightarrow> string" where
  "show_opt x = (case x of None \<Rightarrow> ''undefined'' | Some s \<Rightarrow> s)"

definition newline :: string where
  "newline = [CHR 0x0A]"

definition quote :: string where
  "quote = [CHR 0x27]"

definition entries_of_undefined :: js_error where
  "entries_of_undefined = TypeError ''Cannot convert undefined or null to object''"

text \<open>
  The callback of \<^verbatim>\<open>.map\<close> in \<^verbatim>\<open>generateGraphQLFields\<close> (\<open>None\<close> is \<^verbatim>\<open>null\<close>), and
  \<^verbatim>\<open>.filter(Boolean)\<close>, which drops \<^verbatim>\<open>null\<close> and the empty string.
\<close>

definition fieldSelection :: "int \<Rightarrow> string \<times> field_descriptor \<Rightarrow> string option" where
  "fieldSelection depth entry =
     (case entry of (fieldName, field) \<Rightarrow>
        if isReadOnly field then None
        else if \<not> truthy (type_model (ftype field)) \<and> \<not> truthy (type_enum (ftype field))
          then Some fieldName
        else if truthy (type_enum (ftype field)) then Some fieldName
        else if truthy (type_model (ftype field)) then
          (if depth \<ge> 1 \<or> isArray field then None
           else Some (fieldName @ '' { id name }''))
        else None)"

definition filter_Boolean :: "string option list \<Rightarrow> string list" where
  "filter_Boolean xs = map the (filter truthy xs)"

text \<open>
  \<^verbatim>\<open>generateGraphQLFields(modelName, depth)\<close>. When \<^verbatim>\<open>models[modelName]\<close> is an inherited
  property, \<^verbatim>\<open>model.fields\<close> is \<^verbatim>\<open>undefined\<close> and \<^verbatim>\<open>Object.entries\<close> throws.
\<close>

definition generateGraphQLFields :: "models \<Rightarrow> string \<Rightarrow> int \<Rightarrow> js_error + string" where
  "generateGraphQLFields models modelName depth =
     (if depth > 1 then Inr ''id''
      else
        (case getProperty models modelName of
           Undefined \<Rightarrow> Inr ''id''
         | Inherited \<Rightarrow> Inl entries_of_undefined
         | Own model \<Rightarrow>
             Inr (join newline (filter_Boolean (map (fieldSelection depth) (model_fields model))))))"

text \<open>
  The selection of one field in the words of the specification, with the collection
  case as the code has it: a read-only field gives nothing; a scalar, enum or non-model
  field gives its name; a singular model reference gives the \<^verbatim>\<open>{ id name }\<close> projection at
  depth 0; a collection of models, and any model reference below depth 0, gives nothing.
\<close>

definition spec_selection :: "int \<Rightarrow> string \<times> field_descriptor \<Rightarrow> string list" where
  "spec_selection depth entry =
     (case entry of (fieldName, field) \<Rightarrow>
        if isReadOnly field then []
        else
          (case ftype field of
             ModelRef m \<Rightarrow>
               if isArray field \<or> depth \<ge> 1 then [] else [fieldName @ '' { id name }'']
           | _ \<Rightarrow> [fieldName]))"

section \<open>The tool handlers\<close>

text \<open>The result of a tool: \<^verbatim>\<open>{content: [{type: "text", text}]}\<close>.\<close>

datatype tool_result = TextResult string

text \<open>
  \<^verbatim>\<open>JSON.parse\<close> and \<^verbatim>\<open>JSON.stringify(_, null, 2)\<close> are the platform's; the handlers are
  modelled over any pair of them. \<open>JSON_parse\<close> gives \<open>Inl\<close> with the message of the
  \<^verbatim>\<open>SyntaxError\<close> on a text that is not JSON.
\<close>

record platform =
  JSON_parse :: "string \<Rightarrow> string + json"
  JSON_stringify :: "json \<Rightarrow> string"

text \<open>The tool \<^verbatim>\<open>login\<close>.\<close>

definition login :: "config \<Rightarrow> world \<Rightarrow> string \<Rightarrow> string \<Rightarrow> state \<Rightarrow> tool_result \<times> state" where
  "login cfg w username' password' s =
     (if \<not> isAuthInitialized cfg then
        (TextResult ''Error: Cognito authentication is not configured'', s)
      else
        (let s1 = record_event (SignIn username' password') s in
         case Auth_signIn w (trace s1) of
           Inl m \<Rightarrow> (TextResult (''Login failed: '' @ m), s1)
         | Inr u \<Rightarrow>
             (let s2 = record_event CurrentSession (s1\<lparr>currentUser := Some u\<rparr>) in
              case Auth_currentSession w (trace s2) of
                Inl m \<Rightarrow> (TextResult (''Login failed: '' @ m), s2)
              | Inr jwt \<Rightarrow>
                  (TextResult (''Successfully logged in as '' @ username'),
                   s2\<lparr>idToken := Some jwt,
                      storedUsername := Some username',
                      storedPassword := Some password'\<rparr>))))"

text \<open>The tool \<^verbatim>\<open>get-current-user\<close>.\<close>

definition get_current_user :: "platform \<Rightarrow> world \<Rightarrow> state \<Rightarrow> tool_result \<times> state" where
  "get_current_user pf w s =
     (if currentUser s = None then
        (TextResult ''Not logged in. Use the login tool to authenticate first.'', s)
      else
        (let s1 = record_event CurrentUserInfo s in
         case Auth_currentUserInfo w (trace s1) of
           Inl m \<Rightarrow> (TextResult (''Error getting user info: '' @ m), s1)
         | Inr userInfo \<Rightarrow>
             (TextResult (''Current User:'' @ newline @ JSON_stringify pf userInfo), s1)))"

text \<open>
  \<^verbatim>\<open>typeInfo\<close> of \<^verbatim>\<open>list-models\<close> and \<^verbatim>\<open>get-model-details\<close>; a \<^verbatim>\<open>type\<close> that is an object
  prints as \<^verbatim>\<open>[object Object]\<close>.
\<close>

definition typeInfo :: "field_type \<Rightarrow> string" where
  "typeInfo t =
     (if truthy (type_model t) then the (type_model t) @ '' (model)''
      else if truthy (type_enum t) then the (type_enum t) @ '' (enum)''
      else (case t of Scalar n \<Rightarrow> n | _ \<Rightarrow> ''[object Object]''))"

text \<open>The tool \<^verbatim>\<open>list-models\<close>.\<close>

definition list_models_field :: "string \<times> field_descriptor \<Rightarrow> string" where
  "list_models_field entry =
     (case entry of (fieldName, field) \<Rightarrow>
        ''  - '' @ fieldName @ '': '' @ typeInfo (ftype field)
        @ (if isRequired field then '' (required)'' else [])
        @ (if isArray field then '' (array)'' else []))"

definition list_models_model :: "string \<times> model_descriptor \<Rightarrow> string" where
  "list_models_model entry =
     (case entry of (name, model) \<Rightarrow>
        ''Model: '' @ name @ newline @ ''Fields:'' @ newline
        @ join newline (map list_models_field (model_fields model)))"

definition list_models :: "models \<Rightarrow> tool_result" where
  "list_models models =
     (if length models = 0 then TextResult ''No data models found in the Amplify outputs file''
      else TextResult (''Data Models:'' @ newline @ newline
             @ join (newline @ newline) (map list_models_model models)))"

text \<open>The tool \<^verbatim>\<open>list-enums\<close>.\<close>

definition list_enums_enum :: "string \<times> string list \<Rightarrow> string" where
  "list_enums_enum entry =
     (case entry of (name, enum_values) \<Rightarrow>
        ''Enum: '' @ name @ newline @ ''Values:'' @ newline
        @ join newline (map (\<lambda>v. ''  - '' @ v) enum_values))"

definition list_enums :: "enums \<Rightarrow> tool_result" where
  "list_enums enums =
     (if length enums = 0 then TextResult ''No enum types found in the Amplify outputs file''
      else TextResult (''Enum Types:'' @ newline @ newline
             @ join (newline @ newline) (map list_enums_enum enums)))"

text \<open>The message of \<^verbatim>\<open>get-model-details\<close> and \<^verbatim>\<open>get-relationships\<close> for an unknown model.\<close>

definition model_not_found :: "string \<Rightarrow> tool_result" where
  "model_not_found modelName =
     TextResult (''Model '' @ quote @ modelName @ quote
       @ '' not found. Use list-models to see available models.'')"

text \<open>
  The tool \<^verbatim>\<open>get-model-details\<close>. The handler has no \<^verbatim>\<open>try\<close>: the \<^verbatim>\<open>TypeError\<close> of
  \<^verbatim>\<open>Object.entries(model.fields)\<close> on an inherited property leaves it.
\<close>

definition model_details_field :: "string \<times> field_descriptor \<Rightarrow> string" where
  "model_details_field entry =
     (case entry of (fieldName, field) \<Rightarrow>
        (let relationshipInfo =
           (case association field of
              None \<Rightarrow> []
            | Some a \<Rightarrow>
                newline @ ''    Association: '' @ connectionType a
                @ (case targetNames a of
                     None \<Rightarrow> []
                   | Some ns \<Rightarrow> newline @ ''    Target fields: '' @ join '', '' ns))
         in ''  - '' @ fieldName @ '':'' @ newline @ ''    Type: '' @ typeInfo (ftype field)
            @ (if isRequired field then newline @ ''    Required: Yes'' else [])
            @ (if isArray field then newline @ ''    Array: Yes'' else [])
            @ relationshipInfo))"

definition model_details_rule :: "auth_rule \<Rightarrow> string" where
  "model_details_rule rule =
     ''  - Provider: '' @ show_opt (provider rule) @ newline
     @ ''    Allow: '' @ show_opt (allow rule) @ newline
     @ ''    Operations: '' @ join '', '' (operations rule)"

definition get_model_details :: "models \<Rightarrow> string \<Rightarrow> js_error + tool_result" where
  "get_model_details models modelName =
     (case getProperty models modelName of
        Undefined \<Rightarrow> Inr (model_not_found modelName)
      | Inherited \<Rightarrow> Inl entries_of_undefined
      | Own model \<Rightarrow>
          (let fieldsText =
                 join (newline @ newline) (map model_details_field (model_fields model));
               authRules =
                 join (newline @ newline)
                   (concat (map (\<lambda>attr. map model_details_rule (rules attr))
                      (filter (\<lambda>attr. attr_type attr = ''auth'') (model_attributes model))))
           in Inr (TextResult
                (''Model: '' @ modelName @ newline @ newline @ ''Fields:'' @ newline
                 @ fieldsText @ newline @ newline @ ''Authorization Rules:'' @ newline
                 @ authRules))))"

text \<open>
  The tool \<^verbatim>\<open>run-graphql\<close>. The fuel is that of \<^verbatim>\<open>executeGraphQLQuery\<close>; the result is
  \<open>None\<close> when that call did not return within it. A \<^verbatim>\<open>variables\<close> that is absent or the
  empty string is not parsed.
\<close>

definition run_graphql ::
    "nat \<Rightarrow> platform \<Rightarrow> config \<Rightarrow> world \<Rightarrow> string \<Rightarrow> string option \<Rightarrow> state
      \<Rightarrow> tool_result option \<times> state" where
  "run_graphql k pf cfg w query variables s =
     (case (if truthy variables then JSON_parse pf (the variables) else Inr (JObj [])) of
        Inl m \<Rightarrow> (Some (TextResult (''Invalid JSON variables: '' @ m)), s)
      | Inr variablesObj \<Rightarrow>
          (case executeGraphQLQuery k cfg w query variablesObj s of
             (None, s') \<Rightarrow> (None, s')
           | (Some (Inr result), s') \<Rightarrow>
               (Some (TextResult (''Query Result:'' @ newline @ newline
                        @ JSON_stringify pf result)), s')
           | (Some (Inl error), s') \<Rightarrow>
               (Some (TextResult (''Error executing GraphQL query: '' @ error_message error)),
                s')))"

text \<open>The tool \<^verbatim>\<open>get-relationships\<close>; like \<^verbatim>\<open>get-model-details\<close> it has no \<^verbatim>\<open>try\<close>.\<close>

record relationship =
  rel_fieldName :: string
  rel_type :: "string option"
  relationshipType :: string
  rel_associatedWith :: string
  rel_targetNames :: string

definition join_or_NA :: "string list option \<Rightarrow> string" where
  "join_or_NA names =
     (case names of
        None \<Rightarrow> ''N/A''
      | Some ns \<Rightarrow> if join '', '' ns = [] then ''N/A'' else join '', '' ns)"

definition relationship_of :: "string \<times> field_descriptor \<Rightarrow> relationship" where
  "relationship_of entry =
     (case entry of (fieldName, field) \<Rightarrow>
        (let a = the (association field) in
         \<lparr>rel_fieldName = fieldName,
          rel_type = type_model (ftype field),
          relationshipType = connectionType a,
          rel_associatedWith = join_or_NA (associatedWith a),
          rel_targetNames = join_or_NA (targetNames a)\<rparr>))"

definition relationship_text :: "relationship \<Rightarrow> string" where
  "relationship_text rel =
     ''Field: '' @ rel_fieldName rel @ newline
     @ ''Type: '' @ show_opt (rel_type rel) @ newline
     @ ''Relationship: '' @ relationshipType rel @ newline
     @ ''Associated With: '' @ rel_associatedWith rel @ newline
     @ ''Target Names: '' @ rel_targetNames rel"

definition get_relationships :: "models \<Rightarrow> string \<Rightarrow> js_error + tool_result" where
  "get_relationships models modelName =
     (case getProperty models modelName of
        Undefined \<Rightarrow> Inr (model_not_found modelName)
      | Inherited \<Rightarrow> Inl entries_of_undefined
      | Own model \<Rightarrow>
          (let relationships =
                 map relationship_of
                   (filter (\<lambda>entry. association (snd entry) \<noteq> None) (model_fields model))
           in if length relationships = 0 then
                Inr (TextResult (''No relationships found for model: '' @ modelName))
              else
                Inr (TextResult (''Relationships for '' @ modelName @ '':'' @ newline @ newline
                       @ join (newline @ newline) (map relationship_text relationships)))))"

section \<open>Example inputs\<close>

text \<open>A server that has just started, with authentication configured and both variables set.\<close>

definition initial_state :: state where
  "initial_state =
     \<lparr>currentUser = None, idToken = None, storedUsername = None, storedPassword = None,
      trace = []\<rparr>"

definition example_config :: config where
  "example_config =
     \<lparr>isAuthInitialized = True,
      AMPLIFY_USERNAME = Some ''env@example.com'',
      AMPLIFY_PASSWORD = Some ''env-secret''\<rparr>"

text \<open>
  An outside world that answers from three scripts: the \<open>n\<close>-th request to the endpoint
  gets the \<open>n\<close>-th reply, and so for the sessions and the sign-ins; past the end of a script
  the call is rejected.
\<close>

fun reply_at :: "'a \<Rightarrow> 'a list \<Rightarrow> nat \<Rightarrow> 'a" where
  "reply_at d [] n = d"
| "reply_at d (x # xs) 0 = x"
| "reply_at d (x # xs) (Suc n) = reply_at d xs n"

definition scripted_world ::
    "fetch_outcome list \<Rightarrow> (string + string) list \<Rightarrow> (string + user) list \<Rightarrow> world" where
  "scripted_world replies sessions signIns =
     \<lparr>fetch = (\<lambda>h. reply_at (NetworkError ''fetch failed'') replies
                 (length (filter is_Fetch h) - 1)),
      Auth_currentSession = (\<lambda>h. reply_at (Inl ''No current user'') sessions
                 (length (filter is_CurrentSession h) - 1)),
      Auth_signIn = (\<lambda>h. reply_at (Inl ''Incorrect username or password.'') signIns
                 (length (filter is_SignIn h) - 1)),
      Auth_currentUserInfo = (\<lambda>h. Inl ''No current user'')\<rparr>"

text \<open>
  Bodies: the data of a query; an error of an expired token; an error whose message has
  the text of the specification in small letters; and two bodies that are JSON without
  the shape of a GraphQL response.
\<close>

definition stories :: json where
  "stories = JObj [(''data'', JObj [(''listStories'', JArr [])])]"




definition numeric_message_body :: json where
  "numeric_message_body = JObj [(''errors'', JArr [JObj [(''message'', JNum 401)]])]"

definition unauthorized :: fetch_outcome where
  "unauthorized = Response 401 (Inl ''Unexpected token U in JSON at position 0'')"

definition example_query :: string where
  "example_query = ''query { listStories { items { id } } }''"

text \<open>
  A platform for the examples: its \<^verbatim>\<open>JSON.parse\<close> knows the empty object and, like every
  \<^verbatim>\<open>JSON.parse\<close>, rejects the empty text.
\<close>

definition example_platform :: platform where
  "example_platform =
     \<lparr>JSON_parse = (\<lambda>t. if t = ''{}'' then Inr (JObj [])
                        else if t = [] then Inl ''Unexpected end of JSON input''
                        else Inl ''Unexpected token in JSON''),
      JSON_stringify = (\<lambda>j. ''{}'')\<rparr>"

text \<open>
  The descriptor set of the example scenario: \<^verbatim>\<open>Story\<close> with \<^verbatim>\<open>id\<close>, \<^verbatim>\<open>title\<close> and the
  singular reference \<^verbatim>\<open>character\<close> to \<^verbatim>\<open>Character\<close>, which has \<^verbatim>\<open>id\<close> and \<^verbatim>\<open>name\<close>. The
  scenario does not say whether \<^verbatim>\<open>character\<close> carries association metadata: that is the
  parameter.
\<close>

definition scalar_field :: "string \<Rightarrow> field_descriptor" where
  "scalar_field t =
     \<lparr>ftype = Scalar t, isRequired = True, isArray = False, isReadOnly = False,
      association = None\<rparr>"

definition example_models :: "field_association option \<Rightarrow> models" where
  "example_models a =
     [(''Story'',
       \<lparr>model_fields =
          [(''id'', scalar_field ''ID''),
           (''title'', scalar_field ''String''),
           (''character'',
            \<lparr>ftype = ModelRef ''Character'', isRequired = False, isArray = False,
             isReadOnly = False, association = a\<rparr>)],
        model_attributes = []\<rparr>),
      (''Character'',
       \<lparr>model_fields = [(''id'', scalar_field ''ID''), (''name'', scalar_field ''String'')],
        model_attributes = []\<rparr>)]"

definition belongs_to_character :: field_association where
  "belongs_to_character =
     \<lparr>connectionType = ''BELONGS_TO'', associatedWith = None,
      targetNames = Some [''characterId'']\<rparr>"

text \<open>
  A descriptor set with a collection: an \<^verbatim>\<open>Author\<close> has many \<^verbatim>\<open>Book\<close>s, a read-only
  \<^verbatim>\<open>createdAt\<close> and an enum \<^verbatim>\<open>status\<close>; a \<^verbatim>\<open>Book\<close> refers to its \<^verbatim>\<open>Author\<close>.
\<close>

definition library_models :: models where
  "library_models =
     [(''Author'',
       \<lparr>model_fields =
          [(''id'', scalar_field ''ID''),
           (''status'',
            \<lparr>ftype = EnumRef ''AuthorStatus'', isRequired = False, isArray = False,
             isReadOnly = False, association = None\<rparr>),
           (''books'',
            \<lparr>ftype = ModelRef ''Book'', isRequired = False, isArray = True,
             isReadOnly = False,
             association = Some \<lparr>connectionType = ''HAS_MANY'',
                                  associatedWith = Some [''author''], targetNames = None\<rparr>\<rparr>),
           (''createdAt'',
            \<lparr>ftype = Scalar ''AWSDateTime'', isRequired = False, isArray = False,
             isReadOnly = True, association = None\<rparr>)],
        model_attributes = []\<rparr>),
      (''Book'',
       \<lparr>model_fields =
          [(''id'', scalar_field ''ID''),
           (''author'',
            \<lparr>ftype = ModelRef ''Author'', isRequired = False, isArray = False,
             isReadOnly = False,
             association = Some \<lparr>connectionType = ''BELONGS_TO'', associatedWith = None,
                                  targetNames = Some [''authorId'']\<rparr>\<rparr>)],
        model_attributes = []\<rparr>)]"

text \<open>
  An endpoint that answers every request with status 401, next to an identity provider
  whose sessions are always valid.
\<close>

definition stubborn_world :: world where
  "stubborn_world =
     \<lparr>fetch = (\<lambda>h. unauthorized),
      Auth_currentSession = (\<lambda>h. Inr ''jwt''),
      Auth_signIn = (\<lambda>h. Inl ''Incorrect username or password.''),
      Auth_currentUserInfo = (\<lambda>h. Inl ''No current user'')\<rparr>"

text \<open>A server with authentication configured and no credentials in the environment.\<close>

definition bare_config :: config where
  "bare_config =
     \<lparr>isAuthInitialized = True, AMPLIFY_USERNAME = None, AMPLIFY_PASSWORD = None\<rparr>"


text \<open>The state after \<^verbatim>\<open>ann\<close> has logged in with the tool, some calls ago.\<close>

definition logged_in_state :: state where
  "logged_in_state =
     \<lparr>currentUser = Some (CognitoUser ''ann''), idToken = Some ''old-jwt'',
      storedUsername = Some ''ann'', storedPassword = Some ''secret'',
      trace = [SignIn ''ann'' ''secret'', CurrentSession]\<rparr>"

text \<open>
  Two responses that are authentication failures, then the data; every session is
  valid.
\<close>

definition twice_unauthorized_world :: world where
  "twice_unauthorized_world =
     scripted_world [unauthorized, unauthorized, Response 200 (Inr stories)]
       [Inr ''jwt1'', Inr ''jwt2'', Inr ''jwt3'', Inr ''jwt4''] []"

text \<open>
  An endpoint that refuses the old token once, next to an identity provider that refuses
  the session until someone has signed in again.
\<close>

fun just_refreshing :: "event list \<Rightarrow> bool" where
  "just_refreshing h = (case rev h of e # RefreshInvoked # before \<Rightarrow> True | _ \<Rightarrow> False)"

definition relogin_world :: world where
  "relogin_world =
     \<lparr>fetch = (\<lambda>h. if length (filter is_Fetch h) \<le> 1 then unauthorized
                     else Response 200 (Inr stories)),
      Auth_currentSession = (\<lambda>h. if just_refreshing h
                     then Inl ''Refresh Token has expired'' else Inr ''new-jwt''),
      Auth_signIn = (\<lambda>h. Inr (CognitoUser ''ann'')),
      Auth_currentUserInfo = (\<lambda>h. Inl ''No current user'')\<rparr>"

section \<open>Properties of the executor\<close>

subsection \<open>The inspection of the body\<close>

text \<open>The test \<^verbatim>\<open>includes\<close> on a string is the search for a contiguous piece.\<close>

lemma str_includes_iff: "str_includes s sub \<longleftrightarrow> (\<exists>p q. s = p @ sub @ q)"
proof (induction s)
  case Nil
  show ?case by simp
next
  case (Cons c cs)
  show ?case
  proof
    assume "str_includes (c # cs) sub"
    then consider "take (length sub) (c # cs) = sub" | "str_includes cs sub"
      by auto
    then show "\<exists>p q. c # cs = p @ sub @ q"
    proof cases
      case 1
      then have "c # cs = [] @ sub @ drop (length sub) (c # cs)"
        by (metis append_Nil append_take_drop_id)
      then show ?thesis by blast
    next
      case 2
      with Cons.IH obtain p q where "cs = p @ sub @ q"
        by blast
      then have "c # cs = (c # p) @ sub @ q"
        by simp
      then show ?thesis by blast
    qed
  next
    assume "\<exists>p q. c # cs = p @ sub @ q"
    then obtain p q where pq: "c # cs = p @ sub @ q"
      by blast
    show "str_includes (c # cs) sub"
    proof (cases p)
      case Nil
      with pq have "take (length sub) (c # cs) = sub"
        by simp
      then show ?thesis by simp
    next
      case (Cons c' p')
      with pq have "cs = p' @ sub @ q"
        by simp
      with Cons.IH have "str_includes cs sub"
        by blast
      then show ?thesis by simp
    qed
  qed
qed






text \<open>One call of \<^verbatim>\<open>executeGraphQLQuery\<close>, by the kind of the response.\<close>

lemma executeGraphQLQuery_failure:
  "authentication_failure (fetch w (trace s @ [Fetch (authorization s) query variables])) \<Longrightarrow>
     executeGraphQLQuery (Suc k) cfg w query variables s =
       handleAuthRefresh k cfg w query variables
         (s\<lparr>trace := trace s @ [Fetch (authorization s) query variables]\<rparr>)"
  by (auto simp: Let_def record_event_def authentication_failure_def
      split: fetch_outcome.splits sum.splits)





lemma executeGraphQLQuery_type_error:
  "fetch w (trace s @ [Fetch (authorization s) query variables]) = Response status (Inr result) \<Longrightarrow>
   ok status \<Longrightarrow> hasAuthErrors result = Inl t \<Longrightarrow>
     executeGraphQLQuery (Suc k) cfg w query variables s =
       (Some (Inl (Rethrown t)), s\<lparr>trace := trace s @ [Fetch (authorization s) query variables]\<rparr>)"
  by (auto simp: Let_def record_event_def ok_def)

lemma executeGraphQLQuery_direct:
  "\<not> authentication_failure
       (fetch w (trace s @ [Fetch (authorization s) query variables])) \<Longrightarrow>
     \<exists>x. executeGraphQLQuery (Suc k) cfg w query variables s =
            (Some x, s\<lparr>trace := trace s @ [Fetch (authorization s) query variables]\<rparr>) \<and>
          \<not> auth_unavailable x"
  by (auto simp: Let_def record_event_def authentication_failure_def
      auth_unavailable_def split: fetch_outcome.splits sum.splits bool.splits)

subsection \<open>The refresh step\<close>

lemma handleAuthRefresh_refresh:
  "handleAuthRefresh (Suc k) cfg w query variables s =
     (case refresh cfg w s of
        (None, s1) \<Rightarrow> executeGraphQLQuery k cfg w query variables s1
      | (Some e, s1) \<Rightarrow> (Some (Inl e), s1))"
  by (simp add: refresh_def Let_def split: prod.splits bool.splits)

lemma renewSession_cases:
  obtains
    (first_rejected) m where
      "Auth_currentSession w (trace s @ [CurrentSession]) = Inl m"
      "renewSession w s = (False, s\<lparr>trace := trace s @ [CurrentSession]\<rparr>)"
  | (second_rejected) jwt m where
      "Auth_currentSession w (trace s @ [CurrentSession]) = Inr jwt"
      "Auth_currentSession w (trace s @ [CurrentSession, CurrentSession]) = Inl m"
      "renewSession w s = (False, s\<lparr>trace := trace s @ [CurrentSession, CurrentSession]\<rparr>)"
  | (renewed) first jwt where
      "Auth_currentSession w (trace s @ [CurrentSession]) = Inr first"
      "Auth_currentSession w (trace s @ [CurrentSession, CurrentSession]) = Inr jwt"
      "renewSession w s =
         (True, s\<lparr>idToken := Some jwt, trace := trace s @ [CurrentSession, CurrentSession]\<rparr>)"
proof (cases "Auth_currentSession w (trace s @ [CurrentSession])")
  case (Inl m)
  then show ?thesis
    by (intro first_rejected[of m]) (simp_all add: renewSession_def record_event_def)
next
  case first: (Inr first)
  show ?thesis
  proof (cases "Auth_currentSession w (trace s @ [CurrentSession, CurrentSession])")
    case (Inl m)
    with first show ?thesis
      by (intro second_rejected[of first m]) (simp_all add: renewSession_def record_event_def)
  next
    case (Inr jwt)
    with first show ?thesis
      by (intro renewed[of first jwt]) (simp_all add: renewSession_def record_event_def)
  qed
qed

lemma relogin_cases:
  obtains
    (sign_in_rejected) m where
      "Auth_signIn w (trace s @ [SignIn u p]) = Inl m"
      "relogin w u p s = (False, s\<lparr>trace := trace s @ [SignIn u p]\<rparr>)"
  | (session_rejected) usr m where
      "Auth_signIn w (trace s @ [SignIn u p]) = Inr usr"
      "Auth_currentSession w (trace s @ [SignIn u p, CurrentSession]) = Inl m"
      "relogin w u p s =
         (False, s\<lparr>currentUser := Some usr, trace := trace s @ [SignIn u p, CurrentSession]\<rparr>)"
  | (signed_in) usr jwt where
      "Auth_signIn w (trace s @ [SignIn u p]) = Inr usr"
      "Auth_currentSession w (trace s @ [SignIn u p, CurrentSession]) = Inr jwt"
      "relogin w u p s =
         (True, s\<lparr>currentUser := Some usr, idToken := Some jwt,
                  trace := trace s @ [SignIn u p, CurrentSession]\<rparr>)"
proof (cases "Auth_signIn w (trace s @ [SignIn u p])")
  case (Inl m)
  then show ?thesis
    by (intro sign_in_rejected[of m]) (simp_all add: relogin_def record_event_def)
next
  case usr: (Inr usr)
  show ?thesis
  proof (cases "Auth_currentSession w (trace s @ [SignIn u p, CurrentSession])")
    case (Inl m)
    with usr show ?thesis
      by (intro session_rejected[of usr m]) (simp_all add: relogin_def record_event_def)
  next
    case (Inr jwt)
    with usr show ?thesis
      by (intro signed_in[of usr jwt]) (simp_all add: relogin_def record_event_def)
  qed
qed

lemma renewSession_effect:
  "\<exists>evs. trace (snd (renewSession w s)) = trace s @ evs \<and> requests evs = 0 \<and>
         refreshes evs = 0 \<and> evs \<noteq> [] \<and> hd evs = CurrentSession \<and>
         currentUser (snd (renewSession w s)) = currentUser s \<and>
         storedUsername (snd (renewSession w s)) = storedUsername s \<and>
         storedPassword (snd (renewSession w s)) = storedPassword s"
  by (rule renewSession_cases[where w=w and s=s])
    (simp_all add: requests_def refreshes_def)

lemma relogin_effect:
  "\<exists>evs. trace (snd (relogin w u p s)) = trace s @ SignIn u p # evs \<and> requests evs = 0 \<and>
         refreshes evs = 0 \<and>
         storedUsername (snd (relogin w u p s)) = storedUsername s \<and>
         storedPassword (snd (relogin w u p s)) = storedPassword s"
  by (rule relogin_cases[where w=w and s=s and u=u and p=p])
    (simp_all add: requests_def refreshes_def)

lemma refresh_not_initialized:
  "\<not> isAuthInitialized cfg \<Longrightarrow>
     refresh cfg w s = (Some AuthNotInitialized, record_event RefreshInvoked s)"
  by (simp add: refresh_def)

lemma refresh_renewed:
  "isAuthInitialized cfg \<Longrightarrow> renewSession w (record_event RefreshInvoked s) = (True, s1) \<Longrightarrow>
     refresh cfg w s = (None, s1)"
  by (simp add: refresh_def)

lemma refresh_no_credentials:
  "isAuthInitialized cfg \<Longrightarrow> renewSession w (record_event RefreshInvoked s) = (False, s1) \<Longrightarrow>
   \<not> (truthy (js_or (storedUsername s1) (username cfg)) \<and>
      truthy (js_or (storedPassword s1) (password cfg))) \<Longrightarrow>
     refresh cfg w s = (Some NoStoredCredentials, s1)"
  by (auto simp: refresh_def Let_def)

lemma refresh_relogin:
  "isAuthInitialized cfg \<Longrightarrow> renewSession w (record_event RefreshInvoked s) = (False, s1) \<Longrightarrow>
   truthy (js_or (storedUsername s1) (username cfg)) \<Longrightarrow>
   truthy (js_or (storedPassword s1) (password cfg)) \<Longrightarrow>
   relogin w (the (js_or (storedUsername s1) (username cfg)))
     (the (js_or (storedPassword s1) (password cfg))) s1 = (relogged, s2) \<Longrightarrow>
     refresh cfg w s = (if relogged then None else Some ReloginFailed, s2)"
  by (simp add: refresh_def Let_def)

lemma refresh_effect:
  "\<exists>evs. trace (snd (refresh cfg w s)) = trace s @ RefreshInvoked # evs \<and>
         requests evs = 0 \<and> refreshes evs = 0 \<and>
         storedUsername (snd (refresh cfg w s)) = storedUsername s \<and>
         storedPassword (snd (refresh cfg w s)) = storedPassword s"
proof (cases "isAuthInitialized cfg")
  case False
  then show ?thesis
    by (simp add: refresh_not_initialized record_event_def requests_def refreshes_def)
next
  case init: True
  let ?s0 = "record_event RefreshInvoked s"
  obtain renewed s1 where r: "renewSession w ?s0 = (renewed, s1)"
    by (cases "renewSession w ?s0")
  from renewSession_effect[of w ?s0] r obtain evs1 where s1:
    "trace s1 = trace s @ RefreshInvoked # evs1" "requests evs1 = 0" "refreshes evs1 = 0"
    "storedUsername s1 = storedUsername s" "storedPassword s1 = storedPassword s"
    by (auto simp: record_event_def)
  let ?u = "js_or (storedUsername s1) (username cfg)"
  let ?p = "js_or (storedPassword s1) (password cfg)"
  show ?thesis
  proof (cases "renewed \<or> \<not> (truthy ?u \<and> truthy ?p)")
    case True
    have "snd (refresh cfg w s) = s1"
    proof (cases renewed)
      case True
      with init r show ?thesis by (simp add: refresh_renewed)
    next
      case False
      with True init r show ?thesis by (simp add: refresh_no_credentials)
    qed
    with s1 show ?thesis by simp
  next
    case False
    obtain relogged s2 where l: "relogin w (the ?u) (the ?p) s1 = (relogged, s2)"
      by (cases "relogin w (the ?u) (the ?p) s1")
    from relogin_effect[of w "the ?u" "the ?p" s1] l obtain evs2 where s2:
      "trace s2 = trace s1 @ SignIn (the ?u) (the ?p) # evs2" "requests evs2 = 0"
      "refreshes evs2 = 0" "storedUsername s2 = storedUsername s1"
      "storedPassword s2 = storedPassword s1"
      by auto
    from False init r l have res: "snd (refresh cfg w s) = s2"
      by (simp add: refresh_relogin)
    let ?evs = "evs1 @ SignIn (the ?u) (the ?p) # evs2"
    have "trace s2 = trace s @ RefreshInvoked # ?evs"
      using s1 s2 by simp
    moreover have "requests ?evs = 0"
      using s1 s2 by (simp add: requests_def)
    moreover have "refreshes ?evs = 0"
      using s1 s2 by (simp add: refreshes_def)
    moreover have "storedUsername s2 = storedUsername s" "storedPassword s2 = storedPassword s"
      using s1 s2 by simp_all
    ultimately have
      "trace (snd (refresh cfg w s)) = trace s @ RefreshInvoked # ?evs \<and>
       requests ?evs = 0 \<and> refreshes ?evs = 0 \<and>
       storedUsername (snd (refresh cfg w s)) = storedUsername s \<and>
       storedPassword (snd (refresh cfg w s)) = storedPassword s"
      using res by simp
    then show ?thesis by (rule exI)
  qed
qed

lemma refresh_error_kind:
  "fst (refresh cfg w s) = Some e \<Longrightarrow> kind_of e = AuthUnavailable"
  by (auto simp: refresh_def Let_def split: if_splits prod.splits bool.splits)

text \<open>
  The refresh of the program is the refresh described step by step above: it obtains a
  token in the same cases, with the same state after it, and else throws.
\<close>

lemma relogin_spec:
  assumes u: "js_or (storedUsername s) (username cfg) = Some u" "u \<noteq> []"
    and p: "js_or (storedPassword s) (password cfg) = Some p" "p \<noteq> []"
    and s1: "s1 = s\<lparr>trace := h\<rparr>"
  shows "case spec_reauthenticate cfg w s h of
           Some s2 \<Rightarrow> relogin w u p s1 = (True, s2)
         | None \<Rightarrow> fst (relogin w u p s1) = False"
  using u p s1
  by (auto simp: spec_reauthenticate_def relogin_def record_event_def Let_def
      split: sum.splits)

lemma spec_reauthenticate_no_credentials:
  "\<not> (truthy (js_or (storedUsername s) (username cfg)) \<and>
      truthy (js_or (storedPassword s) (password cfg))) \<Longrightarrow>
     spec_reauthenticate cfg w s h = None"
  by (auto simp: spec_reauthenticate_def truthy_def split: option.splits)

lemma refresh_after_rejected_renewal:
  assumes init: "isAuthInitialized cfg"
    and rejected: "renewSession w (record_event RefreshInvoked s) = (False, s1)"
  shows "case spec_reauthenticate cfg w s (trace s1) of
           Some s2 \<Rightarrow> refresh cfg w s = (None, s2)
         | None \<Rightarrow> fst (refresh cfg w s) \<noteq> None"
proof -
  from rejected have s1: "s1 = s\<lparr>trace := trace s1\<rparr>"
    and same: "storedUsername s1 = storedUsername s" "storedPassword s1 = storedPassword s"
    by (auto simp: renewSession_def record_event_def Let_def split: sum.splits)
  let ?u = "js_or (storedUsername s) (username cfg)"
  let ?p = "js_or (storedPassword s) (password cfg)"
  show ?thesis
  proof (cases "truthy ?u \<and> truthy ?p")
    case False
    with init rejected same have "refresh cfg w s = (Some NoStoredCredentials, s1)"
      by (simp add: refresh_no_credentials)
    with False show ?thesis
      by (simp add: spec_reauthenticate_no_credentials)
  next
    case True
    then obtain u p where u: "?u = Some u" "u \<noteq> []" and p: "?p = Some p" "p \<noteq> []"
      by (auto simp: truthy_def split: option.splits)
    obtain relogged s2 where l: "relogin w u p s1 = (relogged, s2)"
      by (cases "relogin w u p s1")
    with init rejected True u p same
    have r: "refresh cfg w s = (if relogged then None else Some ReloginFailed, s2)"
      using refresh_relogin[of cfg w s s1 relogged s2] by simp
    from relogin_spec[OF u p s1, of w] l r show ?thesis
      by (cases "spec_reauthenticate cfg w s (trace s1)") auto
  qed
qed

lemma refresh_spec:
  "case spec_refresh cfg w s of
     Some s2 \<Rightarrow> refresh cfg w s = (None, s2)
   | None \<Rightarrow> fst (refresh cfg w s) \<noteq> None"
proof (cases "isAuthInitialized cfg")
  case False
  then show ?thesis
    by (simp add: spec_refresh_def refresh_not_initialized)
next
  case init: True
  let ?s0 = "record_event RefreshInvoked s"
  show ?thesis
  proof (rule renewSession_cases[where w=w and s="?s0"])
    fix m
    assume first: "Auth_currentSession w (trace ?s0 @ [CurrentSession]) = Inl m"
      and r: "renewSession w ?s0 = (False, ?s0\<lparr>trace := trace ?s0 @ [CurrentSession]\<rparr>)"
    from refresh_after_rejected_renewal[OF init r] first init show ?thesis
      by (simp add: spec_refresh_def record_event_def)
  next
    fix jwt m
    assume first: "Auth_currentSession w (trace ?s0 @ [CurrentSession]) = Inr jwt"
      and second: "Auth_currentSession w (trace ?s0 @ [CurrentSession, CurrentSession]) = Inl m"
      and r: "renewSession w ?s0 =
                (False, ?s0\<lparr>trace := trace ?s0 @ [CurrentSession, CurrentSession]\<rparr>)"
    from refresh_after_rejected_renewal[OF init r] first second init show ?thesis
      by (simp add: spec_refresh_def record_event_def)
  next
    fix first jwt
    assume first: "Auth_currentSession w (trace ?s0 @ [CurrentSession]) = Inr first"
      and second: "Auth_currentSession w (trace ?s0 @ [CurrentSession, CurrentSession]) = Inr jwt"
      and r: "renewSession w ?s0 =
                (True, ?s0\<lparr>idToken := Some jwt,
                          trace := trace ?s0 @ [CurrentSession, CurrentSession]\<rparr>)"
    from refresh_renewed[OF init r] first second init show ?thesis
      by (simp add: spec_refresh_def record_event_def)
  qed
qed

lemma refresh_succeeds:
  "spec_refresh cfg w s = Some s2 \<Longrightarrow> refresh cfg w s = (None, s2)"
  using refresh_spec[of cfg w s] by simp

lemma refresh_fails:
  "spec_refresh cfg w s = None \<Longrightarrow> \<exists>e s2. refresh cfg w s = (Some e, s2)"
  using refresh_spec[of cfg w s] by (cases "refresh cfg w s") auto

text \<open>
  Whether a refresh succeeds depends on the stored credentials and on the record of
  calls, not on the identity or the token.
\<close>

lemma spec_refresh_depends:
  "storedUsername a = storedUsername b \<Longrightarrow> storedPassword a = storedPassword b \<Longrightarrow>
   trace a = trace b \<Longrightarrow>
     (spec_refresh cfg w a = None) = (spec_refresh cfg w b = None)"
  by (auto simp: spec_refresh_def spec_reauthenticate_def Let_def
      split: sum.splits option.splits if_splits)

subsection \<open>Refreshes and requests of a run\<close>

lemma auth_failures_append:
  "auth_failures w h (xs @ ys) = auth_failures w h xs + auth_failures w (h @ xs) ys"
  by (induction xs arbitrary: h) simp_all

lemma auth_failures_no_requests:
  "requests evs = 0 \<Longrightarrow> auth_failures w h evs = 0"
  by (induction evs arbitrary: h) (auto simp: requests_def split: if_splits)

lemma is_request_of_Fetch: "is_request_of query variables e \<Longrightarrow> is_Fetch e"
  by (cases e) simp_all

lemma refreshes_answered_quiet:
  "refreshes evs = 0 \<Longrightarrow> refreshes_answered cfg w s h evs"
  by (induction evs arbitrary: h) (auto simp: refreshes_def split: if_splits)

lemma refreshes_answered_after_quiet:
  "refreshes xs = 0 \<Longrightarrow>
     refreshes_answered cfg w s h (xs @ ys) = refreshes_answered cfg w s (h @ xs) ys"
  by (induction xs arbitrary: h) (auto simp: refreshes_def split: if_splits)

lemma refreshes_answered_depends:
  "storedUsername a = storedUsername b \<Longrightarrow> storedPassword a = storedPassword b \<Longrightarrow>
     refreshes_answered cfg w a h evs = refreshes_answered cfg w b h evs"
proof (induction evs arbitrary: h)
  case Nil
  show ?case by simp
next
  case (Cons e evs)
  have "(spec_refresh cfg w (a\<lparr>trace := h\<rparr>) = None) = (spec_refresh cfg w (b\<lparr>trace := h\<rparr>) = None)"
    using Cons.prems by (intro spec_refresh_depends) simp_all
  with Cons show ?case by simp
qed

lemma ends_with_refresh_after_quiet:
  "requests xs = 0 \<Longrightarrow> refreshes xs = 0 \<Longrightarrow> 0 < requests ys + refreshes ys \<Longrightarrow>
     ends_with_refresh (xs @ ys) = ends_with_refresh ys"
  by (induction xs) (auto simp: requests_def refreshes_def split: if_splits)

text \<open>From here on a call is unfolded by the lemmas above only.\<close>

declare executeGraphQLQuery.simps(2) [simp del]

declare handleAuthRefresh.simps(2) [simp del]

lemma run_accounted_request:
  assumes "\<not> authentication_failure (fetch w (trace s @ [Fetch a query variables]))"
    and "\<not> auth_unavailable x"
  shows "run_accounted cfg w query variables 0 s x
           (s\<lparr>trace := trace s @ [Fetch a query variables]\<rparr>)"
  unfolding run_accounted_def
  using assms
  by (intro exI[of _ "[Fetch a query variables]"]) (simp add: requests_def refreshes_def)

lemma run_accounted_retry:
  assumes failure: "authentication_failure (fetch w (trace s @ [Fetch a query variables]))"
    and rest: "run_accounted cfg w query variables 1
                 (s\<lparr>trace := trace s @ [Fetch a query variables]\<rparr>) outcome s'"
  shows "run_accounted cfg w query variables 0 s outcome s'"
proof -
  let ?f = "Fetch a query variables"
  let ?s1 = "s\<lparr>trace := trace s @ [?f]\<rparr>"
  from rest obtain evs where evs:
    "trace s' = (trace s @ [?f]) @ evs"
    "refreshes evs = 1 + auth_failures w (trace s @ [?f]) evs"
    "1 + requests evs = (if auth_unavailable outcome then refreshes evs else Suc (refreshes evs))"
    "list_all (\<lambda>e. is_Fetch e = is_request_of query variables e) evs"
    "refreshes_answered cfg w ?s1 (trace s @ [?f]) evs"
    "auth_unavailable outcome = ends_with_refresh evs"
    "storedUsername s' = storedUsername s" "storedPassword s' = storedPassword s"
    unfolding run_accounted_def by auto
  have "trace s' = trace s @ (?f # evs)"
    using evs(1) by simp
  moreover have "refreshes (?f # evs) = 0 + auth_failures w (trace s) (?f # evs)"
    using evs(2) failure by (simp add: refreshes_def)
  moreover have "0 + requests (?f # evs) =
      (if auth_unavailable outcome then refreshes (?f # evs) else Suc (refreshes (?f # evs)))"
    using evs(3) by (simp add: refreshes_def requests_def)
  moreover have "0 < 0 + requests (?f # evs)"
    by (simp add: requests_def)
  moreover have "list_all (\<lambda>e. is_Fetch e = is_request_of query variables e) (?f # evs)"
    using evs(4) by simp
  moreover have "refreshes_answered cfg w s (trace s) (?f # evs)"
    using evs(5) refreshes_answered_depends[of ?s1 s cfg w "trace s @ [?f]" evs] by simp
  moreover have "auth_unavailable outcome = ends_with_refresh (?f # evs)"
    using evs(2,6) by simp
  ultimately show ?thesis
    unfolding run_accounted_def using evs(7,8) by blast
qed

lemma run_accounted_refresh_failed:
  assumes "refresh cfg w s = (Some e, s1)"
  shows "run_accounted cfg w query variables 1 s (Inl e) s1"
proof -
  from refresh_effect[of cfg w s] assms obtain evs where evs:
    "trace s1 = trace s @ RefreshInvoked # evs" "requests evs = 0" "refreshes evs = 0"
    "storedUsername s1 = storedUsername s" "storedPassword s1 = storedPassword s"
    by auto
  from refresh_error_kind[of cfg w s e] assms have unavailable: "auth_unavailable (Inl e)"
    by (simp add: auth_unavailable_def)
  from refresh_spec[of cfg w s] assms have failed: "spec_refresh cfg w s = None"
    by (cases "spec_refresh cfg w s") simp_all
  have no_request: "list_all (\<lambda>e. \<not> is_Fetch e) evs"
    using evs(2) by (simp add: requests_def list_all_iff filter_empty_conv)
  have "list_all (\<lambda>e. is_Fetch e = is_request_of query variables e) (RefreshInvoked # evs)"
    using no_request by (auto simp: list_all_iff dest: is_request_of_Fetch)
  moreover have "refreshes (RefreshInvoked # evs) =
      1 + auth_failures w (trace s) (RefreshInvoked # evs)"
    using evs(2,3) by (simp add: refreshes_def auth_failures_no_requests)
  moreover have "1 + requests (RefreshInvoked # evs) = refreshes (RefreshInvoked # evs)"
    using evs(2,3) by (simp add: refreshes_def requests_def)
  moreover have "refreshes_answered cfg w s (trace s) (RefreshInvoked # evs)"
    using failed evs(2,3) by (simp add: refreshes_answered_quiet)
  moreover have "ends_with_refresh (RefreshInvoked # evs)"
    using evs(2,3) by simp
  ultimately show ?thesis
    unfolding run_accounted_def using evs(1,4,5) unavailable
    by (intro exI[of _ "RefreshInvoked # evs"]) simp
qed

lemma run_accounted_refreshed:
  assumes refreshed: "refresh cfg w s = (None, s1)"
    and rest: "run_accounted cfg w query variables 0 s1 outcome s'"
  shows "run_accounted cfg w query variables 1 s outcome s'"
proof -
  from refresh_effect[of cfg w s] refreshed obtain evs1 where evs1:
    "trace s1 = trace s @ RefreshInvoked # evs1" "requests evs1 = 0" "refreshes evs1 = 0"
    "storedUsername s1 = storedUsername s" "storedPassword s1 = storedPassword s"
    by auto
  from rest obtain evs where evs:
    "trace s' = trace s1 @ evs"
    "refreshes evs = 0 + auth_failures w (trace s1) evs"
    "0 + requests evs = (if auth_unavailable outcome then refreshes evs else Suc (refreshes evs))"
    "0 < 0 + requests evs"
    "list_all (\<lambda>e. is_Fetch e = is_request_of query variables e) evs"
    "refreshes_answered cfg w s1 (trace s1) evs"
    "auth_unavailable outcome = ends_with_refresh evs"
    "storedUsername s' = storedUsername s1" "storedPassword s' = storedPassword s1"
    unfolding run_accounted_def by auto
  from refresh_spec[of cfg w s] refreshed have succeeded: "spec_refresh cfg w s \<noteq> None"
    by (cases "spec_refresh cfg w s") simp_all
  let ?evs = "RefreshInvoked # evs1 @ evs"
  have no_request: "list_all (\<lambda>e. \<not> is_Fetch e) evs1"
    using evs1(2) by (simp add: requests_def list_all_iff filter_empty_conv)
  have "trace s' = trace s @ ?evs"
    using evs(1) evs1(1) by simp
  moreover have "auth_failures w (trace s) ?evs = auth_failures w (trace s1) evs"
    using auth_failures_append[of w "trace s" "RefreshInvoked # evs1" evs]
      auth_failures_no_requests[of evs1 w "trace s @ [RefreshInvoked]"] evs1(1,2)
    by simp
  then have "refreshes ?evs = 1 + auth_failures w (trace s) ?evs"
    using evs(2) evs1(3) by (simp add: refreshes_def)
  moreover have "1 + requests ?evs =
      (if auth_unavailable outcome then refreshes ?evs else Suc (refreshes ?evs))"
    using evs(3) evs1(2,3) by (simp add: refreshes_def requests_def)
  moreover have "0 < 1 + requests ?evs"
    by simp
  moreover have "list_all (\<lambda>e. is_Fetch e = is_request_of query variables e) ?evs"
    using no_request evs(5) by (auto simp: list_all_iff dest: is_request_of_Fetch)
  moreover have "refreshes_answered cfg w s (trace s) ?evs"
  proof -
    have "refreshes_answered cfg w s (trace s @ [RefreshInvoked]) (evs1 @ evs) =
        refreshes_answered cfg w s (trace s1) evs"
      using refreshes_answered_after_quiet[OF evs1(3), of cfg w s "trace s @ [RefreshInvoked]" evs]
        evs1(1) by simp
    also have "\<dots> = refreshes_answered cfg w s1 (trace s1) evs"
      using evs1(4,5) by (intro refreshes_answered_depends) simp_all
    finally have "refreshes_answered cfg w s (trace s @ [RefreshInvoked]) (evs1 @ evs)"
      using evs(6) by simp
    moreover have "0 < requests (evs1 @ evs)"
      using evs(4) by (simp add: requests_def)
    ultimately show ?thesis
      using succeeded by simp
  qed
  moreover have "auth_unavailable outcome = ends_with_refresh ?evs"
  proof -
    have "0 < requests (evs1 @ evs)"
      using evs(4) by (simp add: requests_def)
    then have "ends_with_refresh ?evs = ends_with_refresh (evs1 @ evs)"
      by simp
    also have "\<dots> = ends_with_refresh evs"
      using evs1(2,3) evs(4) by (intro ends_with_refresh_after_quiet) simp_all
    finally show ?thesis
      using evs(7) by simp
  qed
  moreover have "storedUsername s' = storedUsername s" "storedPassword s' = storedPassword s"
    using evs(8,9) evs1(4,5) by simp_all
  ultimately show ?thesis
    unfolding run_accounted_def by blast
qed

lemma run_accounting:
  "(executeGraphQLQuery k cfg w query variables s = (Some outcome, s') \<longrightarrow>
      run_accounted cfg w query variables 0 s outcome s') \<and>
   (handleAuthRefresh k cfg w query variables s = (Some outcome, s') \<longrightarrow>
      run_accounted cfg w query variables 1 s outcome s')"
proof (induction k arbitrary: s outcome s')
  case 0
  show ?case by simp
next
  case (Suc k)
  let ?f = "Fetch (authorization s) query variables"
  let ?s1 = "s\<lparr>trace := trace s @ [?f]\<rparr>"
  have request: "run_accounted cfg w query variables 0 s outcome s'"
    if run: "executeGraphQLQuery (Suc k) cfg w query variables s = (Some outcome, s')"
  proof (cases "authentication_failure (fetch w (trace s @ [?f]))")
    case True
    with run have "handleAuthRefresh k cfg w query variables ?s1 = (Some outcome, s')"
      by (simp add: executeGraphQLQuery_failure)
    with Suc.IH[of ?s1 outcome s'] have "run_accounted cfg w query variables 1 ?s1 outcome s'"
      by simp
    with True show ?thesis by (rule run_accounted_retry)
  next
    case False
    from executeGraphQLQuery_direct[OF False, of k cfg] run
    have "s' = ?s1" and "\<not> auth_unavailable outcome"
      by auto
    with False show ?thesis by (simp add: run_accounted_request)
  qed
  have refreshing: "run_accounted cfg w query variables 1 s outcome s'"
    if run: "handleAuthRefresh (Suc k) cfg w query variables s = (Some outcome, s')"
  proof -
    obtain e s1 where r: "refresh cfg w s = (e, s1)"
      by (cases "refresh cfg w s")
    show ?thesis
    proof (cases e)
      case None
      with r run have "executeGraphQLQuery k cfg w query variables s1 = (Some outcome, s')"
        by (simp add: handleAuthRefresh_refresh)
      with Suc.IH[of s1 outcome s']
      have rest: "run_accounted cfg w query variables 0 s1 outcome s'"
        by simp
      from r None have "refresh cfg w s = (None, s1)"
        by simp
      from this rest show ?thesis by (rule run_accounted_refreshed)
    next
      case (Some err)
      with r run have "outcome = Inl err" and "s' = s1"
        by (simp_all add: handleAuthRefresh_refresh)
      moreover from r Some have "refresh cfg w s = (Some err, s1)"
        by simp
      then have "run_accounted cfg w query variables 1 s (Inl err) s1"
        by (rule run_accounted_refresh_failed)
      ultimately show ?thesis by simp
    qed
  qed
  from request refreshing show ?case by blast
qed

lemma new_events_append: "trace s' = trace s @ evs \<Longrightarrow> new_events s s' = evs"
  by (simp add: new_events_def)

lemma executeGraphQLQuery_refreshed:
  assumes failure:
      "authentication_failure (fetch w (trace s @ [Fetch (authorization s) query variables]))"
    and refreshed:
      "spec_refresh cfg w (s\<lparr>trace := trace s @ [Fetch (authorization s) query variables]\<rparr>)
         = Some s2"
  shows "executeGraphQLQuery (Suc (Suc k)) cfg w query variables s =
           executeGraphQLQuery k cfg w query variables s2"
proof -
  let ?s1 = "s\<lparr>trace := trace s @ [Fetch (authorization s) query variables]\<rparr>"
  from refreshed have "refresh cfg w ?s1 = (None, s2)"
    by (rule refresh_succeeds)
  then have "handleAuthRefresh (Suc k) cfg w query variables ?s1 =
      executeGraphQLQuery k cfg w query variables s2"
    by (simp add: handleAuthRefresh_refresh)
  with executeGraphQLQuery_failure[OF failure, of "Suc k" cfg] show ?thesis
    by simp
qed

lemma executeGraphQLQuery_refresh_failed:
  assumes failure:
      "authentication_failure (fetch w (trace s @ [Fetch (authorization s) query variables]))"
    and failed:
      "spec_refresh cfg w (s\<lparr>trace := trace s @ [Fetch (authorization s) query variables]\<rparr>)
         = None"
  shows "\<exists>e s'. executeGraphQLQuery (Suc (Suc k)) cfg w query variables s = (Some (Inl e), s') \<and>
           kind_of e = AuthUnavailable \<and>
           requests (new_events s s') = 1 \<and> refreshes (new_events s s') = 1"
proof -
  let ?f = "Fetch (authorization s) query variables"
  let ?s1 = "s\<lparr>trace := trace s @ [?f]\<rparr>"
  from refresh_fails[OF failed] obtain e s' where r: "refresh cfg w ?s1 = (Some e, s')"
    by blast
  then have "handleAuthRefresh (Suc k) cfg w query variables ?s1 = (Some (Inl e), s')"
    by (simp add: handleAuthRefresh_refresh)
  with executeGraphQLQuery_failure[OF failure, of "Suc k" cfg]
  have run: "executeGraphQLQuery (Suc (Suc k)) cfg w query variables s = (Some (Inl e), s')"
    by simp
  from refresh_error_kind[of cfg w ?s1 e] r have kind: "kind_of e = AuthUnavailable"
    by simp
  from refresh_effect[of cfg w ?s1] r obtain evs where evs:
    "trace s' = trace ?s1 @ RefreshInvoked # evs" "requests evs = 0" "refreshes evs = 0"
    by auto
  then have "new_events s s' = ?f # RefreshInvoked # evs"
    by (simp add: new_events_def)
  with evs have "requests (new_events s s') = 1" and "refreshes (new_events s s') = 1"
    by (simp_all add: requests_def refreshes_def)
  with run kind show ?thesis by blast
qed

text \<open>
  C1. A response that is not an authentication failure ends \<^verbatim>\<open>executeGraphQLQuery\<close> at once,
  and not with \<open>AuthUnavailable\<close>. A response that is one leads to one refresh: when the
  refresh succeeds, the call goes on as a new call of \<^verbatim>\<open>executeGraphQLQuery\<close> with the
  same query and variables from the state the refresh has left, so that the request is
  sent once again and its response is treated like the first, a further authentication
  failure leading to a further refresh; when the refresh fails, the call ends with
  \<open>AuthUnavailable\<close>, one request and one refresh made. In every call that ends, there is
  one refresh for each response that was an authentication failure; every request carries
  the same query and variables; a request follows each refresh that succeeded and none
  follows one that failed; so there is one request more than there are refreshes, unless
  the outcome is \<open>AuthUnavailable\<close>, which it is exactly when nothing was sent after the
  last refresh: that refresh failed, and the two numbers are equal. The code has no bound
  on either number.
\<close>

theorem executeGraphQLQuery_refresh_per_failure:
  "(let s1 = s\<lparr>trace := trace s @ [Fetch (authorization s) query variables]\<rparr>;
        r = fetch w (trace s1)
    in (\<not> authentication_failure r \<longrightarrow>
          (\<exists>x. executeGraphQLQuery (Suc k) cfg w query variables s = (Some x, s1) \<and>
               \<not> auth_unavailable x)) \<and>
       (authentication_failure r \<longrightarrow>
          (case spec_refresh cfg w s1 of
             Some s2 \<Rightarrow>
               executeGraphQLQuery (Suc (Suc k)) cfg w query variables s =
                 executeGraphQLQuery k cfg w query variables s2
           | None \<Rightarrow>
               (\<exists>e s'. executeGraphQLQuery (Suc (Suc k)) cfg w query variables s =
                         (Some (Inl e), s') \<and>
                       kind_of e = AuthUnavailable \<and>
                       requests (new_events s s') = 1 \<and> refreshes (new_events s s') = 1)))) \<and>
   (executeGraphQLQuery k cfg w query variables s = (Some outcome, s') \<longrightarrow>
      trace s' = trace s @ new_events s s' \<and>
      refreshes (new_events s s') = auth_failures w (trace s) (new_events s s') \<and>
      requests (new_events s s') =
        (if auth_unavailable outcome then refreshes (new_events s s')
         else Suc (refreshes (new_events s s'))) \<and>
      list_all (\<lambda>e. is_Fetch e = is_request_of query variables e) (new_events s s') \<and>
      refreshes_answered cfg w s (trace s) (new_events s s') \<and>
      auth_unavailable outcome = ends_with_refresh (new_events s s'))"
proof (intro conjI)
  let ?s1 = "s\<lparr>trace := trace s @ [Fetch (authorization s) query variables]\<rparr>"
  have direct: "\<exists>x. executeGraphQLQuery (Suc k) cfg w query variables s = (Some x, ?s1) \<and>
      \<not> auth_unavailable x"
    if "\<not> authentication_failure (fetch w (trace ?s1))"
    using that executeGraphQLQuery_direct[of w s query variables k cfg] by simp
  have round: "case spec_refresh cfg w ?s1 of
      Some s2 \<Rightarrow>
        executeGraphQLQuery (Suc (Suc k)) cfg w query variables s =
          executeGraphQLQuery k cfg w query variables s2
    | None \<Rightarrow>
        (\<exists>e s'. executeGraphQLQuery (Suc (Suc k)) cfg w query variables s = (Some (Inl e), s') \<and>
                kind_of e = AuthUnavailable \<and>
                requests (new_events s s') = 1 \<and> refreshes (new_events s s') = 1)"
    if failure: "authentication_failure (fetch w (trace ?s1))"
  proof (cases "spec_refresh cfg w ?s1")
    case None
    with failure show ?thesis
      using executeGraphQLQuery_refresh_failed[of w s query variables cfg k] by simp
  next
    case (Some s2)
    with failure show ?thesis
      using executeGraphQLQuery_refreshed[of w s query variables cfg s2 k] by simp
  qed
  from direct round
  show "let s1 = s\<lparr>trace := trace s @ [Fetch (authorization s) query variables]\<rparr>;
            r = fetch w (trace s1)
        in (\<not> authentication_failure r \<longrightarrow>
              (\<exists>x. executeGraphQLQuery (Suc k) cfg w query variables s = (Some x, s1) \<and>
                   \<not> auth_unavailable x)) \<and>
           (authentication_failure r \<longrightarrow>
              (case spec_refresh cfg w s1 of
                 Some s2 \<Rightarrow>
                   executeGraphQLQuery (Suc (Suc k)) cfg w query variables s =
                     executeGraphQLQuery k cfg w query variables s2
               | None \<Rightarrow>
                   (\<exists>e s'. executeGraphQLQuery (Suc (Suc k)) cfg w query variables s =
                             (Some (Inl e), s') \<and>
                           kind_of e = AuthUnavailable \<and>
                           requests (new_events s s') = 1 \<and>
                           refreshes (new_events s s') = 1)))"
    by (simp only: Let_def) blast
next
  show "executeGraphQLQuery k cfg w query variables s = (Some outcome, s') \<longrightarrow>
      trace s' = trace s @ new_events s s' \<and>
      refreshes (new_events s s') = auth_failures w (trace s) (new_events s s') \<and>
      requests (new_events s s') =
        (if auth_unavailable outcome then refreshes (new_events s s')
         else Suc (refreshes (new_events s s'))) \<and>
      list_all (\<lambda>e. is_Fetch e = is_request_of query variables e) (new_events s s') \<and>
      refreshes_answered cfg w s (trace s) (new_events s s') \<and>
      auth_unavailable outcome = ends_with_refresh (new_events s s')"
  proof
    assume "executeGraphQLQuery k cfg w query variables s = (Some outcome, s')"
    with run_accounting[of k cfg w query variables s outcome s']
    have "run_accounted cfg w query variables 0 s outcome s'"
      by simp
    then obtain evs where evs:
      "trace s' = trace s @ evs"
      "refreshes evs = 0 + auth_failures w (trace s) evs"
      "0 + requests evs = (if auth_unavailable outcome then refreshes evs else Suc (refreshes evs))"
      "list_all (\<lambda>e. is_Fetch e = is_request_of query variables e) evs"
      "refreshes_answered cfg w s (trace s) evs"
      "auth_unavailable outcome = ends_with_refresh evs"
      unfolding run_accounted_def by auto
    from evs(1) have "new_events s s' = evs"
      by (rule new_events_append)
    with evs show "trace s' = trace s @ new_events s s' \<and>
      refreshes (new_events s s') = auth_failures w (trace s) (new_events s s') \<and>
      requests (new_events s s') =
        (if auth_unavailable outcome then refreshes (new_events s s')
         else Suc (refreshes (new_events s s'))) \<and>
      list_all (\<lambda>e. is_Fetch e = is_request_of query variables e) (new_events s s') \<and>
      refreshes_answered cfg w s (trace s) (new_events s s') \<and>
      auth_unavailable outcome = ends_with_refresh (new_events s s')"
      by simp
  qed
qed

theorem executeGraphQLQuery_refresh_per_failure_witness:
  "(authentication_failure
      (fetch relogin_world
         (trace logged_in_state @
            [Fetch (authorization logged_in_state) example_query (JObj [])])) \<and>
    spec_refresh example_config relogin_world
      (logged_in_state\<lparr>trace := trace logged_in_state @
         [Fetch (authorization logged_in_state) example_query (JObj [])]\<rparr>) =
      Some (logged_in_state
         \<lparr>currentUser := Some (CognitoUser ''ann''), idToken := Some ''new-jwt'',
          trace := [SignIn ''ann'' ''secret'', CurrentSession,
                    Fetch (Some ''old-jwt'') example_query (JObj []),
                    RefreshInvoked, CurrentSession,
                    SignIn ''ann'' ''secret'', CurrentSession]\<rparr>) \<and>
    executeGraphQLQuery (Suc (Suc (Suc 0))) example_config relogin_world example_query (JObj [])
        logged_in_state =
      executeGraphQLQuery (Suc 0) example_config relogin_world example_query (JObj [])
        (logged_in_state
           \<lparr>currentUser := Some (CognitoUser ''ann''), idToken := Some ''new-jwt'',
            trace := [SignIn ''ann'' ''secret'', CurrentSession,
                      Fetch (Some ''old-jwt'') example_query (JObj []),
                      RefreshInvoked, CurrentSession,
                      SignIn ''ann'' ''secret'', CurrentSession]\<rparr>)) \<and>
   (authentication_failure
      (fetch (scripted_world [unauthorized] [] [])
         (trace initial_state @ [Fetch (authorization initial_state) example_query (JObj [])])) \<and>
    spec_refresh bare_config (scripted_world [unauthorized] [] [])
      (initial_state\<lparr>trace := trace initial_state @
         [Fetch (authorization initial_state) example_query (JObj [])]\<rparr>) = None \<and>
    (\<exists>e s'. executeGraphQLQuery (Suc (Suc 0)) bare_config (scripted_world [unauthorized] [] [])
               example_query (JObj []) initial_state = (Some (Inl e), s') \<and>
            kind_of e = AuthUnavailable \<and>
            requests (new_events initial_state s') = 1 \<and>
            refreshes (new_events initial_state s') = 1)) \<and>
   (\<not> authentication_failure
      (fetch (scripted_world [Response 200 (Inr stories)] [] [])
         (trace initial_state @ [Fetch (authorization initial_state) example_query (JObj [])])) \<and>
    (\<exists>x. executeGraphQLQuery (Suc 0) example_config
             (scripted_world [Response 200 (Inr stories)] [] []) example_query (JObj [])
             initial_state =
            (Some x, initial_state\<lparr>trace := trace initial_state @
               [Fetch (authorization initial_state) example_query (JObj [])]\<rparr>) \<and>
          \<not> auth_unavailable x)) \<and>
   (fst (executeGraphQLQuery (Suc (Suc (Suc 0))) example_config relogin_world example_query
           (JObj []) logged_in_state) = Some (Inr stories) \<and>
    new_events logged_in_state
      (snd (executeGraphQLQuery (Suc (Suc (Suc 0))) example_config relogin_world example_query
              (JObj []) logged_in_state)) =
      [Fetch (Some ''old-jwt'') example_query (JObj []),
       RefreshInvoked, CurrentSession, SignIn ''ann'' ''secret'', CurrentSession,
       Fetch (Some ''new-jwt'') example_query (JObj [])] \<and>
    refreshes (new_events logged_in_state
      (snd (executeGraphQLQuery (Suc (Suc (Suc 0))) example_config relogin_world example_query
              (JObj []) logged_in_state))) =
      auth_failures relogin_world (trace logged_in_state)
        (new_events logged_in_state
          (snd (executeGraphQLQuery (Suc (Suc (Suc 0))) example_config relogin_world
                  example_query (JObj []) logged_in_state))) \<and>
    requests (new_events logged_in_state
      (snd (executeGraphQLQuery (Suc (Suc (Suc 0))) example_config relogin_world example_query
              (JObj []) logged_in_state))) =
      Suc (refreshes (new_events logged_in_state
        (snd (executeGraphQLQuery (Suc (Suc (Suc 0))) example_config relogin_world
                example_query (JObj []) logged_in_state)))) \<and>
    refreshes_answered example_config relogin_world logged_in_state (trace logged_in_state)
      (new_events logged_in_state
        (snd (executeGraphQLQuery (Suc (Suc (Suc 0))) example_config relogin_world
                example_query (JObj []) logged_in_state))) \<and>
    \<not> ends_with_refresh
      (new_events logged_in_state
        (snd (executeGraphQLQuery (Suc (Suc (Suc 0))) example_config relogin_world
                example_query (JObj []) logged_in_state))))"
proof (intro conjI)
  let ?q = example_query
  let ?v = "JObj []"
  let ?failing = "scripted_world [unauthorized] [] []"
  let ?direct = "scripted_world [Response 200 (Inr stories)] [] []"
  let ?relogged = "logged_in_state
         \<lparr>currentUser := Some (CognitoUser ''ann''), idToken := Some ''new-jwt'',
          trace := [SignIn ''ann'' ''secret'', CurrentSession,
                    Fetch (Some ''old-jwt'') example_query (JObj []),
                    RefreshInvoked, CurrentSession,
                    SignIn ''ann'' ''secret'', CurrentSession]\<rparr>"
  let ?run = "executeGraphQLQuery (Suc (Suc (Suc 0))) example_config relogin_world ?q ?v
                logged_in_state"
  show refused: "authentication_failure
      (fetch relogin_world
         (trace logged_in_state @ [Fetch (authorization logged_in_state) ?q ?v]))"
    by code_simp
  show relogged: "spec_refresh example_config relogin_world
      (logged_in_state\<lparr>trace := trace logged_in_state @
         [Fetch (authorization logged_in_state) ?q ?v]\<rparr>) = Some ?relogged"
    by code_simp
  from executeGraphQLQuery_refresh_per_failure
         [where s = logged_in_state and query = ?q and variables = ?v and w = relogin_world
            and cfg = example_config and k = "Suc 0"]
       refused relogged
  show "?run = executeGraphQLQuery (Suc 0) example_config relogin_world ?q ?v ?relogged"
    by (simp add: Let_def)
  show unauthorized: "authentication_failure
      (fetch ?failing (trace initial_state @ [Fetch (authorization initial_state) ?q ?v]))"
    by code_simp
  show failed: "spec_refresh bare_config ?failing
      (initial_state\<lparr>trace := trace initial_state @
         [Fetch (authorization initial_state) ?q ?v]\<rparr>) = None"
    by code_simp
  from executeGraphQLQuery_refresh_per_failure
         [where s = initial_state and query = ?q and variables = ?v and w = ?failing
            and cfg = bare_config and k = 0]
       unauthorized failed
  show "\<exists>e s'. executeGraphQLQuery (Suc (Suc 0)) bare_config ?failing ?q ?v initial_state =
               (Some (Inl e), s') \<and>
            kind_of e = AuthUnavailable \<and>
            requests (new_events initial_state s') = 1 \<and>
            refreshes (new_events initial_state s') = 1"
    by (simp add: Let_def)
  show clean: "\<not> authentication_failure
      (fetch ?direct (trace initial_state @ [Fetch (authorization initial_state) ?q ?v]))"
    by code_simp
  from executeGraphQLQuery_refresh_per_failure
         [where s = initial_state and query = ?q and variables = ?v and w = ?direct
            and cfg = example_config and k = 0]
       clean
  show "\<exists>x. executeGraphQLQuery (Suc 0) example_config ?direct ?q ?v initial_state =
            (Some x, initial_state\<lparr>trace := trace initial_state @
               [Fetch (authorization initial_state) ?q ?v]\<rparr>) \<and>
          \<not> auth_unavailable x"
    by (simp add: Let_def)
  have ended: "?run = (Some (Inr stories), snd ?run)"
    by code_simp
  show "fst ?run = Some (Inr stories)"
    by code_simp
  show "new_events logged_in_state (snd ?run) =
      [Fetch (Some ''old-jwt'') ?q ?v,
       RefreshInvoked, CurrentSession, SignIn ''ann'' ''secret'', CurrentSession,
       Fetch (Some ''new-jwt'') ?q ?v]"
    by code_simp
  have success: "\<not> auth_unavailable (Inr stories)"
    by (simp add: auth_unavailable_def)
  note whole = executeGraphQLQuery_refresh_per_failure
         [where s = logged_in_state and query = ?q and variables = ?v and w = relogin_world
            and cfg = example_config and k = "Suc (Suc (Suc 0))"
            and outcome = "Inr stories" and s' = "snd ?run"]
  from whole ended success
  show "refreshes (new_events logged_in_state (snd ?run)) =
      auth_failures relogin_world (trace logged_in_state) (new_events logged_in_state (snd ?run))"
    by (simp only: simp_thms if_False)
  from whole ended success
  show "requests (new_events logged_in_state (snd ?run)) =
      Suc (refreshes (new_events logged_in_state (snd ?run)))"
    by (simp only: simp_thms if_False)
  from whole ended success
  show "refreshes_answered example_config relogin_world logged_in_state (trace logged_in_state)
      (new_events logged_in_state (snd ?run))"
    by (simp only: simp_thms if_False)
  from whole ended success
  show "\<not> ends_with_refresh (new_events logged_in_state (snd ?run))"
    by (simp only: simp_thms if_False)
qed

text \<open>
  The response to the retried request is an authentication failure again: the call does
  not end with \<open>AuthUnavailable\<close>; it refreshes a second time, sends the request a third
  time and returns the data.
\<close>

theorem executeGraphQLQuery_refreshes_again:
  "executeGraphQLQuery 5 example_config twice_unauthorized_world example_query (JObj [])
     initial_state =
   (Some (Inr stories),
    \<lparr>currentUser = None, idToken = Some ''jwt4'', storedUsername = None,
     storedPassword = None,
     trace =
       [Fetch None example_query (JObj []),
        RefreshInvoked, CurrentSession, CurrentSession,
        Fetch (Some ''jwt2'') example_query (JObj []),
        RefreshInvoked, CurrentSession, CurrentSession,
        Fetch (Some ''jwt4'') example_query (JObj [])]\<rparr>)"
  by code_simp

text \<open>
  With an endpoint that answers 401 to every request and sessions that stay valid, the
  two functions call each other for ever: no amount of fuel lets the call return.
\<close>

lemma stubborn_world_never_returns:
  "fst (executeGraphQLQuery k example_config stubborn_world query variables s) = None \<and>
   fst (handleAuthRefresh k example_config stubborn_world query variables s) = None"
proof (induction k arbitrary: s)
  case 0
  show ?case by simp
next
  case (Suc k)
  have failure: "authentication_failure (fetch stubborn_world h)" for h
    by (simp add: stubborn_world_def unauthorized_def authentication_failure_def)
  have renewed: "fst (renewSession stubborn_world t) = True" for t
    by (simp add: renewSession_def stubborn_world_def)
  have "fst (refresh example_config stubborn_world s) = None"
    using renewed[of "record_event RefreshInvoked s"]
    by (cases "renewSession stubborn_world (record_event RefreshInvoked s)")
      (simp add: refresh_def example_config_def)
  then obtain s1 where "refresh example_config stubborn_world s = (None, s1)"
    by (cases "refresh example_config stubborn_world s") simp
  then have "handleAuthRefresh (Suc k) example_config stubborn_world query variables s =
      executeGraphQLQuery k example_config stubborn_world query variables s1"
    by (simp add: handleAuthRefresh_refresh)
  moreover have "executeGraphQLQuery (Suc k) example_config stubborn_world query variables s =
      handleAuthRefresh k example_config stubborn_world query variables
        (s\<lparr>trace := trace s @ [Fetch (authorization s) query variables]\<rparr>)"
    using failure by (rule executeGraphQLQuery_failure)
  ultimately show ?case
    using Suc.IH by simp
qed

text \<open>So the tool \<^verbatim>\<open>run-graphql\<close> does not return there either.\<close>

lemma run_graphql_never_returns:
  "fst (run_graphql k pf example_config stubborn_world query None s) = None"
proof -
  obtain s' where "executeGraphQLQuery k example_config stubborn_world query (JObj []) s = (None, s')"
    using stubborn_world_never_returns[of k query "JObj []" s]
    by (cases "executeGraphQLQuery k example_config stubborn_world query (JObj []) s") simp
  then show ?thesis
    by (simp add: run_graphql_def truthy_def)
qed

subsection \<open>The order of the attempts in a refresh\<close>





lemma renewSession_rejected:
  "renewSession w s = (False, s1) \<Longrightarrow>
     s1 = s\<lparr>trace := trace s @ [CurrentSession]\<rparr> \<or>
     s1 = s\<lparr>trace := trace s @ [CurrentSession, CurrentSession]\<rparr>"
  by (rule renewSession_cases[where w=w and s=s]) auto











subsection \<open>The classification of a response\<close>






text \<open>
  Payloads without the shape of a GraphQL response end the call with a \<^verbatim>\<open>TypeError\<close>, an
  internal error, and without a refresh: the payload \<^verbatim>\<open>null\<close>, an \<^verbatim>\<open>errors\<close> that is not
  an array, a message that is a number.
\<close>

lemma executeGraphQLQuery_malformed_payload:
  "executeGraphQLQuery 3 example_config
       (scripted_world [Response 200 (Inr JNull), Response 200 (Inr stories)]
          [Inr ''jwt1'', Inr ''jwt2''] [])
       example_query (JObj []) initial_state =
     (Some (Inl (Rethrown (TypeError ''Cannot read properties of null''))),
      initial_state\<lparr>trace := [Fetch None example_query (JObj [])]\<rparr>) \<and>
   executeGraphQLQuery 3 example_config
       (scripted_world [Response 200 (Inr (JObj [(''errors'', JStr ''Unauthorized'')])),
                        Response 200 (Inr stories)]
          [Inr ''jwt1'', Inr ''jwt2''] [])
       example_query (JObj []) initial_state =
     (Some (Inl (Rethrown (TypeError ''result.errors.some is not a function''))),
      initial_state\<lparr>trace := [Fetch None example_query (JObj [])]\<rparr>) \<and>
   executeGraphQLQuery 3 example_config
       (scripted_world [Response 200 (Inr numeric_message_body), Response 200 (Inr stories)]
          [Inr ''jwt1'', Inr ''jwt2''] [])
       example_query (JObj []) initial_state =
     (Some (Inl (Rethrown (TypeError ''e.message?.includes is not a function''))),
      initial_state\<lparr>trace := [Fetch None example_query (JObj [])]\<rparr>) \<and>
   kind_of (Rethrown t) = InternalError"
  by code_simp

subsection \<open>A rejected re-login\<close>

text \<open>
  C4. When the renewal has failed and \<^verbatim>\<open>Auth.signIn\<close> rejects the credentials,
  \<^verbatim>\<open>handleAuthRefresh\<close> fails with the \<open>AuthUnavailable\<close> error \<^verbatim>\<open>automatic re-login failed\<close>,
  and the state is the one before the call but for the record of the calls made:
  identity, stored credentials and the token too are as they were. The token is not
  cleared.
\<close>

theorem handleAuthRefresh_sign_in_rejected:
  "isAuthInitialized cfg \<Longrightarrow>
   renewSession w (record_event RefreshInvoked s) = (False, s1) \<Longrightarrow>
   js_or (storedUsername s) (username cfg) = Some u \<Longrightarrow> u \<noteq> [] \<Longrightarrow>
   js_or (storedPassword s) (password cfg) = Some p \<Longrightarrow> p \<noteq> [] \<Longrightarrow>
   Auth_signIn w (trace s1 @ [SignIn u p]) = Inl m \<Longrightarrow>
     handleAuthRefresh (Suc k) cfg w query variables s =
       (Some (Inl ReloginFailed), s\<lparr>trace := trace s1 @ [SignIn u p]\<rparr>) \<and>
     idToken (snd (handleAuthRefresh (Suc k) cfg w query variables s)) = idToken s \<and>
     kind_of ReloginFailed = AuthUnavailable \<and>
     error_message ReloginFailed = ''Authentication expired and automatic re-login failed''"
proof -
  assume init: "isAuthInitialized cfg"
    and rejected: "renewSession w (record_event RefreshInvoked s) = (False, s1)"
    and u: "js_or (storedUsername s) (username cfg) = Some u" "u \<noteq> []"
    and p: "js_or (storedPassword s) (password cfg) = Some p" "p \<noteq> []"
    and sign_in: "Auth_signIn w (trace s1 @ [SignIn u p]) = Inl m"
  from renewSession_rejected[OF rejected]
  have same: "storedUsername s1 = storedUsername s" "storedPassword s1 = storedPassword s"
    and s1: "s1\<lparr>trace := trace s1 @ [SignIn u p]\<rparr> = s\<lparr>trace := trace s1 @ [SignIn u p]\<rparr>"
    by (auto simp: record_event_def)
  from sign_in have "relogin w u p s1 = (False, s1\<lparr>trace := trace s1 @ [SignIn u p]\<rparr>)"
    by (simp add: relogin_def record_event_def)
  with s1 have l: "relogin w u p s1 = (False, s\<lparr>trace := trace s1 @ [SignIn u p]\<rparr>)"
    by simp
  from init rejected u p same l
  have "refresh cfg w s = (Some ReloginFailed, s\<lparr>trace := trace s1 @ [SignIn u p]\<rparr>)"
    using refresh_relogin[of cfg w s s1 False "s\<lparr>trace := trace s1 @ [SignIn u p]\<rparr>"]
    by (simp add: truthy_def)
  then have "handleAuthRefresh (Suc k) cfg w query variables s =
      (Some (Inl ReloginFailed), s\<lparr>trace := trace s1 @ [SignIn u p]\<rparr>)"
    by (simp add: handleAuthRefresh_refresh)
  then show ?thesis by simp
qed

theorem handleAuthRefresh_sign_in_rejected_witness:
  "handleAuthRefresh (Suc 0) example_config (scripted_world [] [] []) example_query (JObj [])
     initial_state =
   (Some (Inl ReloginFailed),
    initial_state\<lparr>trace := [RefreshInvoked, CurrentSession,
                             SignIn ''env@example.com'' ''env-secret'']\<rparr>) \<and>
   idToken (snd (handleAuthRefresh (Suc 0) example_config (scripted_world [] [] [])
                   example_query (JObj []) initial_state)) = None"
proof -
  let ?w = "scripted_world [] [] []"
  let ?s1 = "initial_state\<lparr>trace := [RefreshInvoked, CurrentSession]\<rparr>"
  have init: "isAuthInitialized example_config"
    by (simp add: example_config_def)
  have r: "renewSession ?w (record_event RefreshInvoked initial_state) = (False, ?s1)"
    by (simp add: renewSession_def record_event_def scripted_world_def initial_state_def)
  have u: "js_or (storedUsername initial_state) (username example_config) =
      Some ''env@example.com''"
    by (simp add: js_or_def truthy_def initial_state_def username_def example_config_def)
  have p: "js_or (storedPassword initial_state) (password example_config) = Some ''env-secret''"
    by (simp add: js_or_def truthy_def initial_state_def password_def example_config_def)
  have rejected: "Auth_signIn ?w (trace ?s1 @ [SignIn ''env@example.com'' ''env-secret'']) =
      Inl ''Incorrect username or password.''"
    by (simp add: scripted_world_def)
  have token: "idToken initial_state = None"
    by (simp add: initial_state_def)
  from handleAuthRefresh_sign_in_rejected[OF init r u _ p _ rejected, of 0 example_query "JObj []"]
    token
  show ?thesis by simp
qed

text \<open>
  After a login with the tool, a refresh whose renewal and re-login are both rejected
  leaves the old token in place.
\<close>

theorem handleAuthRefresh_keeps_token:
  "handleAuthRefresh 1 example_config (scripted_world [] [] []) example_query (JObj [])
     logged_in_state =
   (Some (Inl ReloginFailed),
    \<lparr>currentUser = Some (CognitoUser ''ann''), idToken = Some ''old-jwt'',
     storedUsername = Some ''ann'', storedPassword = Some ''secret'',
     trace = [SignIn ''ann'' ''secret'', CurrentSession, RefreshInvoked, CurrentSession,
              SignIn ''ann'' ''secret'']\<rparr>)"
  by code_simp

text \<open>
  When the sign-in is accepted and the session that follows it is rejected, the call
  fails in the same way, with the identity already replaced.
\<close>

lemma handleAuthRefresh_session_rejected:
  assumes init: "isAuthInitialized cfg"
    and rejected: "renewSession w (record_event RefreshInvoked s) = (False, s1)"
    and u: "js_or (storedUsername s) (username cfg) = Some u" "u \<noteq> []"
    and p: "js_or (storedPassword s) (password cfg) = Some p" "p \<noteq> []"
    and sign_in: "Auth_signIn w (trace s1 @ [SignIn u p]) = Inr usr"
    and session: "Auth_currentSession w (trace s1 @ [SignIn u p, CurrentSession]) = Inl m"
  shows "handleAuthRefresh (Suc k) cfg w query variables s =
           (Some (Inl ReloginFailed),
            s\<lparr>currentUser := Some usr, trace := trace s1 @ [SignIn u p, CurrentSession]\<rparr>)"
proof -
  from renewSession_rejected[OF rejected]
  have same: "storedUsername s1 = storedUsername s" "storedPassword s1 = storedPassword s"
    and s1: "s1\<lparr>currentUser := Some usr, trace := trace s1 @ [SignIn u p, CurrentSession]\<rparr> =
             s\<lparr>currentUser := Some usr, trace := trace s1 @ [SignIn u p, CurrentSession]\<rparr>"
    by (auto simp: record_event_def)
  from sign_in session
  have "relogin w u p s1 =
      (False, s1\<lparr>currentUser := Some usr, trace := trace s1 @ [SignIn u p, CurrentSession]\<rparr>)"
    by (simp add: relogin_def record_event_def)
  with s1 have l: "relogin w u p s1 =
      (False, s\<lparr>currentUser := Some usr, trace := trace s1 @ [SignIn u p, CurrentSession]\<rparr>)"
    by simp
  from init rejected u p same l
  have "refresh cfg w s =
      (Some ReloginFailed,
       s\<lparr>currentUser := Some usr, trace := trace s1 @ [SignIn u p, CurrentSession]\<rparr>)"
    using refresh_relogin[of cfg w s s1 False
        "s\<lparr>currentUser := Some usr, trace := trace s1 @ [SignIn u p, CurrentSession]\<rparr>"]
    by (simp add: truthy_def)
  then show ?thesis
    by (simp add: handleAuthRefresh_refresh)
qed

section \<open>Properties of the tool handlers\<close>

lemma login_not_initialized:
  "\<not> isAuthInitialized cfg \<Longrightarrow>
     login cfg w u p s = (TextResult ''Error: Cognito authentication is not configured'', s)"
  by (simp add: login_def)

lemma login_sign_in_rejected:
  "isAuthInitialized cfg \<Longrightarrow> Auth_signIn w (trace s @ [SignIn u p]) = Inl m \<Longrightarrow>
     login cfg w u p s =
       (TextResult (''Login failed: '' @ m), s\<lparr>trace := trace s @ [SignIn u p]\<rparr>)"
  by (simp add: login_def record_event_def)

lemma login_session_rejected:
  "isAuthInitialized cfg \<Longrightarrow> Auth_signIn w (trace s @ [SignIn u p]) = Inr usr \<Longrightarrow>
   Auth_currentSession w (trace s @ [SignIn u p, CurrentSession]) = Inl m \<Longrightarrow>
     login cfg w u p s =
       (TextResult (''Login failed: '' @ m),
        s\<lparr>currentUser := Some usr, trace := trace s @ [SignIn u p, CurrentSession]\<rparr>)"
  by (simp add: login_def record_event_def)

lemma login_success:
  "isAuthInitialized cfg \<Longrightarrow> Auth_signIn w (trace s @ [SignIn u p]) = Inr usr \<Longrightarrow>
   Auth_currentSession w (trace s @ [SignIn u p, CurrentSession]) = Inr jwt \<Longrightarrow>
     login cfg w u p s =
       (TextResult (''Successfully logged in as '' @ u),
        s\<lparr>currentUser := Some usr, idToken := Some jwt, storedUsername := Some u,
          storedPassword := Some p, trace := trace s @ [SignIn u p, CurrentSession]\<rparr>)"
  by (simp add: login_def record_event_def)

text \<open>
  C10. When \<^verbatim>\<open>Auth.signIn\<close> rejects, \<^verbatim>\<open>login\<close> returns \<^verbatim>\<open>Login failed: ...\<close> and the state
  is the one before the call but for the record of the sign-in attempt: identity, token
  and both stored credentials are as they were. Whenever a call of \<^verbatim>\<open>login\<close> changes a
  stored credential, authentication is configured and both the sign-in and the session
  that yields the token succeeded.
\<close>

theorem login_stores_after_success:
  "(isAuthInitialized cfg \<and> Auth_signIn w (trace s @ [SignIn u p]) = Inl m \<longrightarrow>
      login cfg w u p s =
        (TextResult (''Login failed: '' @ m), s\<lparr>trace := trace s @ [SignIn u p]\<rparr>)) \<and>
   (storedUsername (snd (login cfg w u p s)) \<noteq> storedUsername s \<or>
    storedPassword (snd (login cfg w u p s)) \<noteq> storedPassword s \<longrightarrow>
      isAuthInitialized cfg \<and>
      (\<exists>usr jwt.
         Auth_signIn w (trace s @ [SignIn u p]) = Inr usr \<and>
         Auth_currentSession w (trace s @ [SignIn u p, CurrentSession]) = Inr jwt \<and>
         login cfg w u p s =
           (TextResult (''Successfully logged in as '' @ u),
            s\<lparr>currentUser := Some usr, idToken := Some jwt, storedUsername := Some u,
              storedPassword := Some p, trace := trace s @ [SignIn u p, CurrentSession]\<rparr>)))"
proof (intro conjI impI)
  assume "isAuthInitialized cfg \<and> Auth_signIn w (trace s @ [SignIn u p]) = Inl m"
  then show "login cfg w u p s =
      (TextResult (''Login failed: '' @ m), s\<lparr>trace := trace s @ [SignIn u p]\<rparr>)"
    by (simp add: login_sign_in_rejected)
next
  assume changed: "storedUsername (snd (login cfg w u p s)) \<noteq> storedUsername s \<or>
                   storedPassword (snd (login cfg w u p s)) \<noteq> storedPassword s"
  show "isAuthInitialized cfg"
  proof (rule ccontr)
    assume "\<not> isAuthInitialized cfg"
    with changed show False by (simp add: login_not_initialized)
  qed
next
  assume changed: "storedUsername (snd (login cfg w u p s)) \<noteq> storedUsername s \<or>
                   storedPassword (snd (login cfg w u p s)) \<noteq> storedPassword s"
  have init: "isAuthInitialized cfg"
  proof (rule ccontr)
    assume "\<not> isAuthInitialized cfg"
    with changed show False by (simp add: login_not_initialized)
  qed
  show "\<exists>usr jwt.
         Auth_signIn w (trace s @ [SignIn u p]) = Inr usr \<and>
         Auth_currentSession w (trace s @ [SignIn u p, CurrentSession]) = Inr jwt \<and>
         login cfg w u p s =
           (TextResult (''Successfully logged in as '' @ u),
            s\<lparr>currentUser := Some usr, idToken := Some jwt, storedUsername := Some u,
              storedPassword := Some p, trace := trace s @ [SignIn u p, CurrentSession]\<rparr>)"
  proof (cases "Auth_signIn w (trace s @ [SignIn u p])")
    case (Inl m)
    with init changed show ?thesis
      by (simp add: login_sign_in_rejected)
  next
    case (Inr usr)
    show ?thesis
    proof (cases "Auth_currentSession w (trace s @ [SignIn u p, CurrentSession])")
      case (Inl m)
      with init changed Inr show ?thesis
        by (simp add: login_session_rejected)
    next
      case jwt: (Inr jwt)
      with init Inr show ?thesis
        by (simp add: login_success)
    qed
  qed
qed

theorem login_stores_after_success_witness:
  "login example_config (scripted_world [] [] []) ''ann'' ''wrong'' initial_state =
     (TextResult ''Login failed: Incorrect username or password.'',
      initial_state\<lparr>trace := [SignIn ''ann'' ''wrong'']\<rparr>) \<and>
   (\<exists>usr jwt.
      login example_config (scripted_world [] [Inr ''jwt''] [Inr (CognitoUser ''ann'')])
        ''ann'' ''secret'' initial_state =
      (TextResult ''Successfully logged in as ann'',
       initial_state\<lparr>currentUser := Some usr, idToken := Some jwt,
         storedUsername := Some ''ann'', storedPassword := Some ''secret'',
         trace := [SignIn ''ann'' ''secret'', CurrentSession]\<rparr>))"
proof -
  have tr: "trace initial_state = []"
    by (simp add: initial_state_def)
  have init: "isAuthInitialized example_config"
    by (simp add: example_config_def)
  have rejected: "Auth_signIn (scripted_world [] [] []) [SignIn ''ann'' ''wrong'']
                    = Inl ''Incorrect username or password.''"
    by (simp add: scripted_world_def)
  have a: "login example_config (scripted_world [] [] []) ''ann'' ''wrong'' initial_state =
     (TextResult ''Login failed: Incorrect username or password.'',
      initial_state\<lparr>trace := [SignIn ''ann'' ''wrong'']\<rparr>)"
    using login_stores_after_success
            [of example_config "scripted_world [] [] []" initial_state "''ann''" "''wrong''"
               "''Incorrect username or password.''"]
          init rejected
    by (simp add: tr)
  let ?w = "scripted_world [] [Inr ''jwt''] [Inr (CognitoUser ''ann'')]"
  have changed: "storedUsername (snd (login example_config ?w ''ann'' ''secret'' initial_state))
                   \<noteq> storedUsername initial_state"
    by code_simp
  have b: "\<exists>usr jwt.
      login example_config ?w ''ann'' ''secret'' initial_state =
      (TextResult ''Successfully logged in as ann'',
       initial_state\<lparr>currentUser := Some usr, idToken := Some jwt,
         storedUsername := Some ''ann'', storedPassword := Some ''secret'',
         trace := [SignIn ''ann'' ''secret'', CurrentSession]\<rparr>)"
    using login_stores_after_success
            [of example_config ?w initial_state "''ann''" "''secret''"] changed
    by (simp add: tr) blast
  from a b show ?thesis by simp
qed

text \<open>
  C8. A \<^verbatim>\<open>variables\<close> text that is not empty and that \<^verbatim>\<open>JSON.parse\<close> rejects makes
  \<^verbatim>\<open>run-graphql\<close> return \<^verbatim>\<open>Invalid JSON variables: ...\<close> with the state, and so the record
  of the calls made, as before: \<^verbatim>\<open>executeGraphQLQuery\<close> is not entered and no request is
  sent, whatever the query, the fuel and the outside world.
\<close>

theorem run_graphql_invalid_variables:
  "variables \<noteq> [] \<Longrightarrow> JSON_parse pf variables = Inl m \<Longrightarrow>
     run_graphql k pf cfg w query (Some variables) s =
       (Some (TextResult (''Invalid JSON variables: '' @ m)), s)"
  by (simp add: run_graphql_def truthy_def)

theorem run_graphql_invalid_variables_witness:
  "''{not valid json'' \<noteq> [] \<and>
   JSON_parse example_platform ''{not valid json'' = Inl ''Unexpected token in JSON'' \<and>
   run_graphql 3 example_platform example_config stubborn_world example_query
     (Some ''{not valid json'') initial_state =
   (Some (TextResult ''Invalid JSON variables: Unexpected token in JSON''), initial_state)"
proof -
  have ne: "''{not valid json'' \<noteq> []"
    by simp
  have rejected:
    "JSON_parse example_platform ''{not valid json'' = Inl ''Unexpected token in JSON''"
    by (simp add: example_platform_def)
  from run_graphql_invalid_variables [OF ne rejected] ne rejected
  show ?thesis by simp
qed

text \<open>
  The empty text is not JSON, yet \<^verbatim>\<open>if (variables)\<close> takes it for an absent argument:
  the query is sent with the variables \<^verbatim>\<open>{}\<close>.
\<close>

theorem run_graphql_empty_variables_sent:
  "JSON_parse example_platform [] = Inl ''Unexpected end of JSON input'' \<and>
   run_graphql 1 example_platform example_config
     (scripted_world [Response 200 (Inr stories)] [] []) example_query (Some []) initial_state =
   (Some (TextResult (''Query Result:'' @ newline @ newline @ ''{}'')),
    initial_state\<lparr>trace := [Fetch None example_query (JObj [])]\<rparr>)"
  by code_simp

text \<open>
  C6. In the example scenario, when the field \<^verbatim>\<open>character\<close> carries association metadata
  (whatever it is), \<^verbatim>\<open>get-relationships\<close> of \<^verbatim>\<open>Story\<close> returns one entry, for the field
  \<^verbatim>\<open>character\<close> with the type \<^verbatim>\<open>Character\<close>; of \<^verbatim>\<open>Character\<close> it returns the message
  \<^verbatim>\<open>No relationships found for model: Character\<close>, as a result and not as an error.
\<close>

theorem get_relationships_example:
  "get_relationships (example_models (Some a)) ''Story'' =
     Inr (TextResult
       (''Relationships for Story:'' @ newline @ newline
        @ relationship_text
            \<lparr>rel_fieldName = ''character'', rel_type = Some ''Character'',
             relationshipType = connectionType a,
             rel_associatedWith = join_or_NA (associatedWith a),
             rel_targetNames = join_or_NA (targetNames a)\<rparr>)) \<and>
   get_relationships (example_models b) ''Character'' =
     Inr (TextResult ''No relationships found for model: Character'')"
  by (simp add: get_relationships_def getProperty_def example_models_def scalar_field_def
      relationship_of_def)

theorem get_relationships_example_witness:
  "get_relationships (example_models (Some belongs_to_character)) ''Story'' =
     Inr (TextResult
       (''Relationships for Story:'' @ newline @ newline
        @ ''Field: character'' @ newline
        @ ''Type: Character'' @ newline
        @ ''Relationship: BELONGS_TO'' @ newline
        @ ''Associated With: N/A'' @ newline
        @ ''Target Names: characterId'')) \<and>
   get_relationships (example_models (Some belongs_to_character)) ''Character'' =
     Inr (TextResult ''No relationships found for model: Character'')"
  using get_relationships_example [of belongs_to_character "Some belongs_to_character"]
  by (simp add: relationship_text_def belongs_to_character_def join_or_NA_def show_opt_def)

text \<open>
  With the descriptor set as the scenario writes it, the field \<^verbatim>\<open>character\<close> a model
  reference without association metadata, \<^verbatim>\<open>Story\<close> has no relationship.
\<close>

theorem get_relationships_without_association:
  "get_relationships (example_models None) ''Story'' =
     Inr (TextResult ''No relationships found for model: Story'')"
  by (simp add: get_relationships_def getProperty_def example_models_def scalar_field_def)

text \<open>
  C7. The name \<^verbatim>\<open>constructor\<close> is not a model of the example scenario, and
  \<^verbatim>\<open>get-model-details\<close> does not answer it with a text: the \<^verbatim>\<open>TypeError\<close> of
  \<^verbatim>\<open>Object.entries(model.fields)\<close> leaves the handler, which has no \<^verbatim>\<open>try\<close>.
\<close>

theorem get_model_details_inherited_name:
  "map_of (example_models (Some belongs_to_character)) ''constructor'' = None \<and>
   get_model_details (example_models (Some belongs_to_character)) ''constructor'' =
     Inl (TypeError ''Cannot convert undefined or null to object'')"
  by (simp add: get_model_details_def getProperty_def example_models_def
      objectPrototypeProperties_def entries_of_undefined_def)

text \<open>The same name leaves \<^verbatim>\<open>get-relationships\<close> in the same way.\<close>

lemma get_relationships_inherited_name:
  "get_relationships (example_models (Some belongs_to_character)) ''constructor'' =
     Inl (TypeError ''Cannot convert undefined or null to object'')"
  by (simp add: get_relationships_def getProperty_def example_models_def
      objectPrototypeProperties_def entries_of_undefined_def)

text \<open>A model name with no inherited meaning is answered by a text, known or not.\<close>

lemma get_model_details_text:
  "modelName \<notin> set objectPrototypeProperties \<Longrightarrow>
     \<exists>text. get_model_details models modelName = Inr (TextResult text)"
  by (cases "map_of models modelName")
    (simp_all add: get_model_details_def getProperty_def model_not_found_def Let_def)

lemma get_relationships_text:
  "modelName \<notin> set objectPrototypeProperties \<Longrightarrow>
     \<exists>text. get_relationships models modelName = Inr (TextResult text)"
  by (cases "map_of models modelName")
    (simp_all add: get_relationships_def getProperty_def model_not_found_def Let_def)

section \<open>Properties of the selection-set generator\<close>

lemma getProperty_absent:
  "map_of obj key = None \<Longrightarrow> key \<notin> set objectPrototypeProperties \<Longrightarrow>
     getProperty obj key = Undefined"
  by (simp add: getProperty_def)

lemma getProperty_inherited:
  "map_of obj key = None \<Longrightarrow> key \<in> set objectPrototypeProperties \<Longrightarrow>
     getProperty obj key = Inherited"
  by (simp add: getProperty_def)

text \<open>
  A model name that is neither in the descriptor set nor a property of \<^verbatim>\<open>Object.prototype\<close>
  gives \<^verbatim>\<open>id\<close> at every depth.
\<close>

lemma generateGraphQLFields_unknown:
  "map_of models modelName = None \<Longrightarrow> modelName \<notin> set objectPrototypeProperties \<Longrightarrow>
     generateGraphQLFields models modelName depth = Inr ''id''"
  by (simp add: generateGraphQLFields_def getProperty_absent)

text \<open>
  C9. The name \<^verbatim>\<open>constructor\<close> is not in the descriptor set, and at depth 0 the generator
  does not return \<^verbatim>\<open>id\<close>: \<^verbatim>\<open>models["constructor"]\<close> is the inherited function, the test
  \<^verbatim>\<open>!model\<close> fails, and \<^verbatim>\<open>Object.entries(model.fields)\<close> throws a \<^verbatim>\<open>TypeError\<close>.
\<close>

theorem generateGraphQLFields_inherited_name:
  "map_of library_models ''constructor'' = None \<and>
   generateGraphQLFields library_models ''constructor'' 0 =
     Inl (TypeError ''Cannot convert undefined or null to object'')"
  by (simp add: generateGraphQLFields_def getProperty_def library_models_def
      objectPrototypeProperties_def entries_of_undefined_def)

lemma selection_of_field:
  assumes "fst entry \<noteq> []" and "ftype (snd entry) \<noteq> ModelRef []"
  shows "(case fieldSelection depth entry of
            None \<Rightarrow> []
          | Some line \<Rightarrow> if line = [] then [] else [line]) = spec_selection depth entry"
proof (cases entry)
  case (Pair fieldName field)
  with assms show ?thesis
    by (cases "ftype field")
      (auto simp: fieldSelection_def spec_selection_def truthy_def)
qed

lemma filter_Boolean_Cons:
  "filter_Boolean (x # xs) =
     (case x of None \<Rightarrow> [] | Some line \<Rightarrow> if line = [] then [] else [line]) @ filter_Boolean xs"
  by (cases x) (auto simp: filter_Boolean_def truthy_def)

lemma filter_Boolean_selection:
  "\<forall>entry\<in>set fs. fst entry \<noteq> [] \<and> ftype (snd entry) \<noteq> ModelRef [] \<Longrightarrow>
     filter_Boolean (map (fieldSelection depth) fs) = concat (map (spec_selection depth) fs)"
proof (induction fs)
  case Nil
  show ?case by (simp add: filter_Boolean_def)
next
  case (Cons entry fs)
  then have "fst entry \<noteq> []" and "ftype (snd entry) \<noteq> ModelRef []"
    by simp_all
  then have "(case fieldSelection depth entry of
                None \<Rightarrow> []
              | Some line \<Rightarrow> if line = [] then [] else [line]) = spec_selection depth entry"
    by (rule selection_of_field)
  with Cons show ?case
    by (simp add: filter_Boolean_Cons)
qed

text \<open>
  C5. Beyond depth 1 the generator gives \<^verbatim>\<open>id\<close> for every model name. Up to depth 1, for
  a model of the descriptor set (with field names and referenced model names that are not
  empty), it gives one line for each field that has a selection, in the order of the
  fields: a read-only field has none; a scalar, enum or non-model field has its name; a
  singular model reference has \<^verbatim>\<open>name { id name }\<close> at depth 0; a collection of models, and
  any model reference at depth 1, has none. The generator does not call itself, so no
  selection is nested deeper than that one projection.
\<close>

theorem generateGraphQLFields_selection:
  "(1 < depth \<longrightarrow> generateGraphQLFields models anyName depth = Inr ''id'') \<and>
   (depth \<le> 1 \<and> getProperty models modelName = Own model \<and>
    (\<forall>entry\<in>set (model_fields model). fst entry \<noteq> [] \<and> ftype (snd entry) \<noteq> ModelRef []) \<longrightarrow>
      generateGraphQLFields models modelName depth =
        Inr (join newline (concat (map (spec_selection depth) (model_fields model)))))"
  by (simp add: generateGraphQLFields_def filter_Boolean_selection)

theorem generateGraphQLFields_selection_witness:
  "generateGraphQLFields library_models ''Book'' 2 = Inr ''id'' \<and>
   generateGraphQLFields library_models ''Book'' 0 = Inr (''id'' @ newline @ ''author { id name }'') \<and>
   generateGraphQLFields library_models ''Book'' 1 = Inr ''id''"
proof -
  let ?book = "\<lparr>model_fields =
          [(''id'', scalar_field ''ID''),
           (''author'',
            \<lparr>ftype = ModelRef ''Author'', isRequired = False, isArray = False,
             isReadOnly = False,
             association = Some \<lparr>connectionType = ''BELONGS_TO'', associatedWith = None,
                                  targetNames = Some [''authorId'']\<rparr>\<rparr>)],
        model_attributes = []\<rparr>"
  have own: "getProperty library_models ''Book'' = Own ?book"
    by (simp add: getProperty_def library_models_def)
  have wf: "\<forall>entry\<in>set (model_fields ?book). fst entry \<noteq> [] \<and> ftype (snd entry) \<noteq> ModelRef []"
    by (simp add: scalar_field_def)
  have a: "generateGraphQLFields library_models ''Book'' 2 = Inr ''id''"
    using generateGraphQLFields_selection [of 2 library_models "''Book''"] by simp
  have b: "generateGraphQLFields library_models ''Book'' 0 =
             Inr (''id'' @ newline @ ''author { id name }'')"
    using generateGraphQLFields_selection [of 0 library_models _ "''Book''" ?book] own wf
    by (simp add: spec_selection_def scalar_field_def)
  have c: "generateGraphQLFields library_models ''Book'' 1 = Inr ''id''"
    using generateGraphQLFields_selection [of 1 library_models _ "''Book''" ?book] own wf
    by (simp add: spec_selection_def scalar_field_def)
  from a b c show ?thesis by simp
qed

text \<open>
  The collection \<^verbatim>\<open>books\<close> of an \<^verbatim>\<open>Author\<close> gets no \<^verbatim>\<open>{ id }\<close> projection: the field is left
  out, like the read-only \<^verbatim>\<open>createdAt\<close>.
\<close>

theorem generateGraphQLFields_skips_collections:
  "generateGraphQLFields library_models ''Author'' 0 = Inr (''id'' @ newline @ ''status'')"
  by (simp add: generateGraphQLFields_def getProperty_def library_models_def scalar_field_def
      filter_Boolean_def fieldSelection_def truthy_def)

end
